theory Spec2Isabelle
  imports Complex_Main
begin

section \<open>Python values and primitives used by the runners\<close>

text \<open>
  Python floats are modelled as exact rationals and Python ints as \<open>int\<close>.
  An exception is a value carrying its class name and its message; \<open>str(e)\<close> is the
  message. Every operation of the source that can raise returns a sum, \<open>Inl\<close> the
  exception.
\<close>

datatype py_exn = PyExn (exn_class: string) (exn_msg: string)

definition ZeroDivisionError :: py_exn where
  "ZeroDivisionError = PyExn ''ZeroDivisionError'' ''division by zero''"

definition IndexError :: py_exn where
  "IndexError = PyExn ''IndexError'' ''list index out of range''"

definition ValueError :: "string \<Rightarrow> py_exn" where
  "ValueError msg = PyExn ''ValueError'' msg"

definition AttributeError :: "string \<Rightarrow> py_exn" where
  "AttributeError msg = PyExn ''AttributeError'' msg"

definition str_exn :: "py_exn \<Rightarrow> string" where
  "str_exn e = exn_msg e"

definition bind_exn :: "py_exn + 'a \<Rightarrow> ('a \<Rightarrow> py_exn + 'b) \<Rightarrow> py_exn + 'b" where
  "bind_exn m f = (case m of Inl e \<Rightarrow> Inl e | Inr x \<Rightarrow> f x)"

definition py_truediv :: "rat \<Rightarrow> rat \<Rightarrow> py_exn + rat" where
  "py_truediv a b = (if b = 0 then Inl ZeroDivisionError else Inr (a / b))"

text \<open>\<open>xs[i]\<close>: an index below zero is taken from the end of the list.\<close>

definition py_getitem :: "'a list \<Rightarrow> int \<Rightarrow> py_exn + 'a" where
  "py_getitem xs i =
     (if 0 \<le> i \<and> i < int (length xs) then Inr (xs ! nat i)
      else if i < 0 \<and> - int (length xs) \<le> i then Inr (xs ! nat (int (length xs) + i))
      else Inl IndexError)"

definition py_min :: "rat list \<Rightarrow> py_exn + rat" where
  "py_min xs = (case xs of [] \<Rightarrow> Inl (ValueError ''min() arg is an empty sequence'')
                | y # ys \<Rightarrow> Inr (fold min ys y))"

definition py_max :: "rat list \<Rightarrow> py_exn + rat" where
  "py_max xs = (case xs of [] \<Rightarrow> Inl (ValueError ''max() arg is an empty sequence'')
                | y # ys \<Rightarrow> Inr (fold max ys y))"

text \<open>\<open>int(x)\<close> on a float truncates towards zero.\<close>

definition py_int :: "rat \<Rightarrow> int" where
  "py_int x = (if 0 \<le> x then \<lfloor>x\<rfloor> else \<lceil>x\<rceil>)"

text \<open>Truthiness of an int and of an optional string (\<open>None\<close> and \<open>''\<close> are falsy).\<close>

definition truthy_int :: "int \<Rightarrow> bool" where
  "truthy_int i = (i \<noteq> 0)"

definition truthy_str :: "string option \<Rightarrow> bool" where
  "truthy_str e = (case e of None \<Rightarrow> False | Some s \<Rightarrow> s \<noteq> [])"

text \<open>\<open>str(n)\<close> for an int: decimal digits, with a minus sign for negatives.\<close>

definition digit_char :: "nat \<Rightarrow> char" where
  "digit_char d = char_of (48 + d)"

fun str_nat :: "nat \<Rightarrow> string" where
  "str_nat n = (if n < 10 then [digit_char n] else str_nat (n div 10) @ [digit_char (n mod 10)])"

definition str_int :: "int \<Rightarrow> string" where
  "str_int i = (if i < 0 then CHR ''-'' # str_nat (nat (- i)) else str_nat (nat i))"

section \<open>Data model (frameworks/base.py and the record dictionaries of the runners)\<close>

text \<open>
  Values of the open \<open>custom_params\<close> dictionary and of JSON payloads. A dictionary is
  an association list (\<open>map_of\<close> looks a key up).
\<close>

datatype py_value = VNone | VBool bool | VInt int | VStr string
  | VDict "(string \<times> py_value) list"

record TestConfig =
  target_url :: string
  users :: int
  duration :: int
  rampup :: int
  test_type :: string
  framework :: string
  custom_params :: "(string \<times> py_value) list option"

text \<open>
  One outcome record, the dictionary appended to \<open>all_responses\<close> (enhanced runner) or
  \<open>responses\<close> (simple runner). \<open>error = None\<close> stands for a missing key or a stored
  \<open>None\<close>; the field \<open>size\<close> of the source is \<open>size_bytes\<close>; \<open>session_idx\<close> is the
  simple runner's \<open>user_id\<close>.
\<close>

record response_record =
  timestamp :: rat
  response_time :: rat
  status_code :: int
  size_bytes :: int
  error :: "string option"
  session_idx :: int

record TestResults =
  total_requests :: int
  successful_requests :: int
  failed_requests :: int
  requests_per_second :: rat
  avg_response_time :: rat
  median_response_time :: rat
  p95_response_time :: rat
  p99_response_time :: rat
  min_response_time :: rat
  max_response_time :: rat
  error_rate :: rat
  errors :: "(string \<rightharpoonup> int) option"
  data_sent_mb :: rat
  data_received_mb :: rat
  res_duration :: int

definition TestResults_default :: TestResults where
  "TestResults_default =
     \<lparr>total_requests = 0, successful_requests = 0, failed_requests = 0,
      requests_per_second = 0, avg_response_time = 0, median_response_time = 0,
      p95_response_time = 0, p99_response_time = 0, min_response_time = 0,
      max_response_time = 0, error_rate = 0, errors = None, data_sent_mb = 0,
      data_received_mb = 0, res_duration = 0\<rparr>"

section \<open>Aggregation in \<open>EnhancedHttpRunner.run_test\<close>\<close>

definition successful_responses :: "response_record list \<Rightarrow> response_record list" where
  "successful_responses rs =
     filter (\<lambda>r. truthy_int (status_code r) \<and> 0 < status_code r \<and> status_code r < 400
                 \<and> \<not> truthy_str (error r)) rs"

definition failed_responses :: "response_record list \<Rightarrow> response_record list" where
  "failed_responses rs = filter (\<lambda>r. truthy_int (status_code r) \<and> status_code r \<ge> 400) rs"

definition error_responses :: "response_record list \<Rightarrow> response_record list" where
  "error_responses rs = filter (\<lambda>r. truthy_str (error r)) rs"

definition positive_times :: "response_record list \<Rightarrow> rat list" where
  "positive_times rs = map response_time (filter (\<lambda>r. response_time r > 0) rs)"

text \<open>The median, minimum and maximum block (\<open>if len(response_times) > 0\<close>).\<close>

definition median_min_max :: "rat list \<Rightarrow> TestResults \<Rightarrow> py_exn + TestResults" where
  "median_min_max rts res =
     (if int (length rts) > 0 then
        bind_exn (py_getitem rts (int (length rts) div 2)) (\<lambda>med.
        bind_exn (py_min rts) (\<lambda>mn.
        bind_exn (py_max rts) (\<lambda>mx.
          Inr (res\<lparr>median_response_time := med, min_response_time := mn,
                   max_response_time := mx\<rparr>))))
      else Inr res)"

text \<open>
  The percentile block shared by both runners: the two indices, each element read only
  when its index is in range.
\<close>

definition p95_idx :: "rat list \<Rightarrow> int" where
  "p95_idx rts = py_int ((95 / 100) * of_int (int (length rts)))"

definition p99_idx :: "rat list \<Rightarrow> int" where
  "p99_idx rts = py_int ((99 / 100) * of_int (int (length rts)))"

definition set_percentiles :: "rat list \<Rightarrow> TestResults \<Rightarrow> py_exn + TestResults" where
  "set_percentiles rts res =
     bind_exn (if p95_idx rts < int (length rts)
               then bind_exn (py_getitem rts (p95_idx rts))
                      (\<lambda>v. Inr (res\<lparr>p95_response_time := v\<rparr>))
               else Inr res) (\<lambda>res1.
       if p99_idx rts < int (length rts)
       then bind_exn (py_getitem rts (p99_idx rts)) (\<lambda>v. Inr (res1\<lparr>p99_response_time := v\<rparr>))
       else Inr res1)"

definition percentiles_enhanced :: "rat list \<Rightarrow> TestResults \<Rightarrow> py_exn + TestResults" where
  "percentiles_enhanced rts res =
     (if int (length rts) > 0 then
        (if int (length rts) \<ge> 20 then set_percentiles rts res else Inr res)
      else Inr res)"

text \<open>
  Requests per second; \<open>actual_duration\<close> is \<open>time.time() - start_time\<close> read at this
  point of the run.
\<close>

definition set_rps :: "rat \<Rightarrow> TestResults \<Rightarrow> py_exn + TestResults" where
  "set_rps actual_duration res =
     (if actual_duration > 0 then
        bind_exn (py_truediv (of_int (total_requests res)) actual_duration)
          (\<lambda>v. Inr (res\<lparr>requests_per_second := v\<rparr>))
      else Inr res)"

text \<open>The whole \<open>if response_times:\<close> block of the enhanced runner.\<close>

definition response_time_stats :: "rat \<Rightarrow> rat list \<Rightarrow> TestResults \<Rightarrow> py_exn + TestResults" where
  "response_time_stats actual_duration response_times res =
     (if response_times \<noteq> [] then
        (let rts = sort response_times in
         bind_exn (py_truediv (sum_list rts) (of_int (int (length rts)))) (\<lambda>avg.
         bind_exn (median_min_max rts (res\<lparr>avg_response_time := avg\<rparr>)) (\<lambda>res1.
         bind_exn (percentiles_enhanced rts res1) (\<lambda>res2.
         set_rps actual_duration res2))))
      else Inr res)"

text \<open>
  Error types. The stored error is a Python \<open>str\<close> (the runners store \<open>str(e)\<close>), every
  object has \<open>__class__\<close>, and the class name of a \<open>str\<close> is \<open>str\<close>.
\<close>

definition hasattr_class :: "string \<Rightarrow> bool" where
  "hasattr_class v = True"

definition class_name :: "string \<Rightarrow> string" where
  "class_name v = ''str''"

definition error_type :: "string \<Rightarrow> string" where
  "error_type v = (if hasattr_class v then class_name v else v)"

definition bump :: "(string \<rightharpoonup> int) \<Rightarrow> string \<Rightarrow> (string \<rightharpoonup> int)" where
  "bump error_counts k = error_counts(k \<mapsto> (case error_counts k of None \<Rightarrow> 0 | Some c \<Rightarrow> c) + 1)"

fun count_errors :: "response_record list \<Rightarrow> (string \<rightharpoonup> int) \<Rightarrow> (string \<rightharpoonup> int)" where
  "count_errors [] error_counts = error_counts"
| "count_errors (r # rs) error_counts =
     count_errors rs
       (if truthy_str (error r) then bump error_counts (error_type (the (error r)))
        else if status_code r \<ge> 400 then bump error_counts (str_int (status_code r))
        else error_counts)"

definition set_error_rate :: "response_record list \<Rightarrow> TestResults \<Rightarrow> py_exn + TestResults" where
  "set_error_rate rs res =
     (if total_requests res > 0 then
        bind_exn (py_truediv (of_int (int (length (failed_responses rs))
                                      + int (length (error_responses rs))))
                             (of_int (total_requests res)))
          (\<lambda>q. Inr (res\<lparr>error_rate := q * 100\<rparr>))
      else Inr res)"

definition set_data_transfer :: "response_record list \<Rightarrow> TestResults \<Rightarrow> py_exn + TestResults" where
  "set_data_transfer rs res =
     bind_exn (py_truediv (of_int (sum_list (map size_bytes rs))) (1024 * 1024))
       (\<lambda>mb. Inr (res\<lparr>data_sent_mb := 0, data_received_mb := mb\<rparr>))"

text \<open>
  The metrics part of \<open>EnhancedHttpRunner.run_test\<close>, from \<open>results = TestResults()\<close> to
  \<open>return results\<close>, as a function of the collected records, the configured duration and
  the elapsed wall-clock time.
\<close>

definition aggregate_enhanced ::
  "int \<Rightarrow> rat \<Rightarrow> response_record list \<Rightarrow> py_exn + TestResults" where
  "aggregate_enhanced cfg_duration actual_duration all_responses =
     (let results = TestResults_default\<lparr>res_duration := cfg_duration\<rparr> in
      if all_responses \<noteq> [] then
        (let res0 = results\<lparr>total_requests := int (length all_responses),
                            successful_requests := int (length (successful_responses all_responses)),
                            failed_requests := int (length (failed_responses all_responses))\<rparr> in
         bind_exn (set_error_rate all_responses res0) (\<lambda>res1.
         bind_exn (response_time_stats actual_duration (positive_times all_responses) res1) (\<lambda>res2.
         bind_exn (set_data_transfer all_responses res2) (\<lambda>res3.
           Inr (res3\<lparr>errors := Some (count_errors all_responses Map.empty)\<rparr>)))))
      else Inr results)"

section \<open>Aggregation in \<open>SimpleHttpRunner.run_test\<close>\<close>

text \<open>
  The simple runner stores the key \<open>error\<close> only for a failed request, so
  \<open>'error' in r\<close> is \<open>error r \<noteq> None\<close>.
\<close>

definition successful_responses_simple :: "response_record list \<Rightarrow> response_record list" where
  "successful_responses_simple rs =
     filter (\<lambda>r. truthy_int (status_code r) \<and> status_code r < 400) rs"

definition error_responses_simple :: "response_record list \<Rightarrow> response_record list" where
  "error_responses_simple rs = filter (\<lambda>r. error r \<noteq> None) rs"

definition median_min_max_simple :: "rat list \<Rightarrow> TestResults \<Rightarrow> py_exn + TestResults" where
  "median_min_max_simple rts res =
     bind_exn (py_getitem rts (int (length rts) div 2)) (\<lambda>med.
     bind_exn (py_min rts) (\<lambda>mn.
     bind_exn (py_max rts) (\<lambda>mx.
       Inr (res\<lparr>median_response_time := med, min_response_time := mn,
                max_response_time := mx\<rparr>))))"

definition percentiles_simple :: "rat list \<Rightarrow> TestResults \<Rightarrow> py_exn + TestResults" where
  "percentiles_simple rts res =
     (if int (length rts) > 0 then set_percentiles rts res else Inr res)"

definition response_time_stats_simple ::
  "rat \<Rightarrow> rat list \<Rightarrow> TestResults \<Rightarrow> py_exn + TestResults" where
  "response_time_stats_simple actual_duration response_times res =
     (if response_times \<noteq> [] then
        (let rts = sort response_times in
         bind_exn (py_truediv (sum_list rts) (of_int (int (length rts)))) (\<lambda>avg.
         bind_exn (median_min_max_simple rts (res\<lparr>avg_response_time := avg\<rparr>)) (\<lambda>res1.
         bind_exn (percentiles_simple rts res1) (\<lambda>res2.
         set_rps actual_duration res2))))
      else Inr res)"

fun count_errors_simple :: "response_record list \<Rightarrow> (string \<rightharpoonup> int) \<Rightarrow> (string \<rightharpoonup> int)" where
  "count_errors_simple [] error_counts = error_counts"
| "count_errors_simple (r # rs) error_counts =
     count_errors_simple rs
       (if error r \<noteq> None then bump error_counts (error_type (the (error r)))
        else if status_code r \<ge> 400 then bump error_counts (str_int (status_code r))
        else error_counts)"

definition set_error_rate_simple :: "response_record list \<Rightarrow> TestResults \<Rightarrow> py_exn + TestResults" where
  "set_error_rate_simple rs res =
     (if total_requests res > 0 then
        bind_exn (py_truediv (of_int (int (length (failed_responses rs))
                                      + int (length (error_responses_simple rs))))
                             (of_int (total_requests res)))
          (\<lambda>q. Inr (res\<lparr>error_rate := q * 100\<rparr>))
      else Inr res)"

definition aggregate_simple ::
  "int \<Rightarrow> rat \<Rightarrow> response_record list \<Rightarrow> py_exn + TestResults" where
  "aggregate_simple cfg_duration actual_duration responses =
     (let results = TestResults_default\<lparr>res_duration := cfg_duration\<rparr> in
      if responses \<noteq> [] then
        (let res0 = results\<lparr>total_requests := int (length responses),
                            successful_requests := int (length (successful_responses_simple responses)),
                            failed_requests := int (length (failed_responses responses))\<rparr> in
         bind_exn (set_error_rate_simple responses res0) (\<lambda>res1.
         bind_exn (response_time_stats_simple actual_duration (positive_times responses) res1) (\<lambda>res2.
         bind_exn (set_data_transfer responses res2) (\<lambda>res3.
           Inr (res3\<lparr>errors := Some (count_errors_simple responses Map.empty)\<rparr>)))))
      else Inr results)"

section \<open>Single request execution (\<open>_make_web_request\<close>, \<open>_make_api_request\<close>, \<open>_make_webhook_request\<close>)\<close>

text \<open>
  The HTTP library is the environment: a session maps a request to a response or to a
  raised exception. Exceptions are instances of \<open>Exception\<close>, which is what
  \<open>except Exception\<close> catches.
\<close>

record http_request =
  req_method :: string
  req_url :: string
  req_json :: "py_value option"

record http_response =
  resp_status_code :: int
  resp_content :: string

type_synonym session = "http_request \<Rightarrow> py_exn + http_response"

text \<open>The dictionary a request function returns; a missing key is \<open>None\<close>.\<close>

record response_data =
  rd_status_code :: "int option"
  rd_size :: "int option"
  rd_error :: "string option"

definition try_except :: "py_exn + 'a \<Rightarrow> (py_exn \<Rightarrow> py_exn + 'a) \<Rightarrow> py_exn + 'a" where
  "try_except body handler = (case body of Inl e \<Rightarrow> handler e | Inr v \<Rightarrow> Inr v)"

definition content_size :: "http_response \<Rightarrow> int" where
  "content_size response = (if resp_content response \<noteq> [] then int (length (resp_content response)) else 0)"

definition success_data :: "http_response \<Rightarrow> response_data" where
  "success_data response =
     \<lparr>rd_status_code = Some (resp_status_code response), rd_size = Some (content_size response),
      rd_error = None\<rparr>"

definition failure_data :: "py_exn \<Rightarrow> response_data" where
  "failure_data e = \<lparr>rd_status_code = Some 0, rd_size = Some 0, rd_error = Some (str_exn e)\<rparr>"

definition session_get :: "session \<Rightarrow> string \<Rightarrow> py_exn + http_response" where
  "session_get s url = s \<lparr>req_method = ''GET'', req_url = url, req_json = None\<rparr>"

definition session_delete :: "session \<Rightarrow> string \<Rightarrow> py_exn + http_response" where
  "session_delete s url = s \<lparr>req_method = ''DELETE'', req_url = url, req_json = None\<rparr>"

definition session_post :: "session \<Rightarrow> string \<Rightarrow> py_value \<Rightarrow> py_exn + http_response" where
  "session_post s url payload = s \<lparr>req_method = ''POST'', req_url = url, req_json = Some payload\<rparr>"

definition session_put :: "session \<Rightarrow> string \<Rightarrow> py_value \<Rightarrow> py_exn + http_response" where
  "session_put s url payload = s \<lparr>req_method = ''PUT'', req_url = url, req_json = Some payload\<rparr>"

text \<open>
  Each request function is one \<open>try\<close> statement: the body obtains a response (or
  raises), builds the success dictionary from it, and the handler turns any exception into
  the failure dictionary.
\<close>

definition web_response :: "TestConfig \<Rightarrow> session \<Rightarrow> py_exn + http_response" where
  "web_response config s = session_get s (target_url config)"

definition make_web_request :: "TestConfig \<Rightarrow> session \<Rightarrow> py_exn + response_data" where
  "make_web_request config s =
     try_except
       (bind_exn (web_response config s) (\<lambda>response. Inr (success_data response)))
       (\<lambda>e. Inr (failure_data e))"

text \<open>\<open>dict.get(key, default)\<close> and truthiness of the optional dictionary.\<close>

definition dict_get :: "(string \<times> py_value) list \<Rightarrow> string \<Rightarrow> py_value \<Rightarrow> py_value" where
  "dict_get d k dflt = (case map_of d k of None \<Rightarrow> dflt | Some v \<Rightarrow> v)"

definition truthy_params :: "(string \<times> py_value) list option \<Rightarrow> bool" where
  "truthy_params p = (case p of None \<Rightarrow> False | Some d \<Rightarrow> d \<noteq> [])"

text \<open>\<open>.upper()\<close>: defined on strings (ASCII letters here), an AttributeError otherwise.\<close>

definition upper_char :: "char \<Rightarrow> char" where
  "upper_char c = (if 97 \<le> (of_char c :: nat) \<and> (of_char c :: nat) \<le> 122
                   then char_of ((of_char c :: nat) - 32) else c)"

definition type_name :: "py_value \<Rightarrow> string" where
  "type_name v = (case v of VNone \<Rightarrow> ''NoneType'' | VBool b \<Rightarrow> ''bool'' | VInt i \<Rightarrow> ''int''
                  | VStr s \<Rightarrow> ''str'' | VDict d \<Rightarrow> ''dict'')"

definition no_attribute :: "py_value \<Rightarrow> string \<Rightarrow> py_exn" where
  "no_attribute v attr =
     AttributeError (CHR 0x27 # type_name v @ CHR 0x27 # '' object has no attribute ''
                     @ CHR 0x27 # attr @ [CHR 0x27])"

definition py_upper :: "py_value \<Rightarrow> py_exn + string" where
  "py_upper v = (case v of VStr s \<Rightarrow> Inr (map upper_char s)
                 | _ \<Rightarrow> Inl (no_attribute v ''upper''))"

definition api_method :: "TestConfig \<Rightarrow> py_exn + string" where
  "api_method config =
     (if truthy_params (custom_params config)
      then py_upper (dict_get (the (custom_params config)) ''method'' (VStr ''GET''))
      else Inr ''GET'')"

definition api_payload :: "TestConfig \<Rightarrow> py_value" where
  "api_payload config =
     (if truthy_params (custom_params config)
      then dict_get (the (custom_params config)) ''payload'' (VDict [])
      else VDict [])"

definition api_response :: "TestConfig \<Rightarrow> session \<Rightarrow> py_exn + http_response" where
  "api_response config s =
     bind_exn (api_method config) (\<lambda>method.
       if method = ''GET'' then session_get s (target_url config)
       else if method = ''POST'' then session_post s (target_url config) (api_payload config)
       else if method = ''PUT'' then session_put s (target_url config) (api_payload config)
       else if method = ''DELETE'' then session_delete s (target_url config)
       else session_get s (target_url config))"

definition make_api_request :: "TestConfig \<Rightarrow> session \<Rightarrow> py_exn + response_data" where
  "make_api_request config s =
     try_except
       (bind_exn (api_response config s) (\<lambda>response. Inr (success_data response)))
       (\<lambda>e. Inr (failure_data e))"

text \<open>
  The webhook payload; the three \<open>random.randint(100000, 999999)\<close> draws and the clock
  reading are supplied by the environment.
\<close>

definition webhook_payload :: "int \<times> int \<times> int \<Rightarrow> rat \<Rightarrow> py_value" where
  "webhook_payload rnd t =
     (case rnd of (update_id, from_id, chat_id) \<Rightarrow>
      VDict [(''update_id'', VInt update_id),
             (''message'', VDict
                [(''message_id'', VInt 1),
                 (''from'', VDict [(''id'', VInt from_id), (''first_name'', VStr ''Test''),
                                    (''is_bot'', VBool False), (''username'', VStr ''testuser''),
                                    (''language_code'', VStr ''en'')]),
                 (''chat'', VDict [(''id'', VInt chat_id), (''type'', VStr ''private''),
                                    (''first_name'', VStr ''Test''), (''username'', VStr ''testuser'')]),
                 (''date'', VInt (py_int t)),
                 (''text'', VStr ''Hello from load test!'')])])"

definition webhook_response ::
  "int \<times> int \<times> int \<Rightarrow> rat \<Rightarrow> TestConfig \<Rightarrow> session \<Rightarrow> py_exn + http_response" where
  "webhook_response rnd t config s = session_post s (target_url config) (webhook_payload rnd t)"

definition make_webhook_request ::
  "int \<times> int \<times> int \<Rightarrow> rat \<Rightarrow> TestConfig \<Rightarrow> session \<Rightarrow> py_exn + response_data" where
  "make_webhook_request rnd t config s =
     try_except
       (bind_exn (webhook_response rnd t config s) (\<lambda>response. Inr (success_data response)))
       (\<lambda>e. Inr (failure_data e))"

text \<open>The dispatch on the test type at the top of \<open>make_requests_for_user\<close>.\<close>

text \<open>What the transport answers to the request built for the configured test type.\<close>

definition transport_outcome ::
  "int \<times> int \<times> int \<Rightarrow> rat \<Rightarrow> TestConfig \<Rightarrow> session \<Rightarrow> py_exn + http_response" where
  "transport_outcome rnd t config s =
     (if test_type config = ''telegram-webhook'' then webhook_response rnd t config s
      else if test_type config = ''api-endpoint'' then api_response config s
      else web_response config s)"

definition request_func ::
  "int \<times> int \<times> int \<Rightarrow> rat \<Rightarrow> TestConfig \<Rightarrow> session \<Rightarrow> py_exn + response_data" where
  "request_func rnd t config s =
     (if test_type config = ''telegram-webhook'' then make_webhook_request rnd t config s
      else if test_type config = ''api-endpoint'' then make_api_request config s
      else make_web_request config s)"

section \<open>The request loop of one virtual user (\<open>make_requests_for_user\<close>)\<close>

text \<open>
  Time is a logical clock: \<open>time.time()\<close> reads \<open>now\<close>, a request advances it by the
  latency the environment gives to that attempt (in microseconds, so never negative),
  \<open>time.sleep\<close> advances it by its argument, and everything else takes no time. The
  environment also fixes what the shared \<open>active\<close> flag reads at a given time and
  how the session answers the k-th attempt.
\<close>

record user_env =
  active_at :: "rat \<Rightarrow> bool"
  session_at :: "nat \<Rightarrow> session"
  latency_at :: "nat \<Rightarrow> nat"
  random_at :: "nat \<Rightarrow> int \<times> int \<times> int"

text \<open>
  The state of the loop: the clock, the user's own list, the records this user appended to
  the shared list, and the calls of \<open>time.sleep\<close> made so far (start time and length).
\<close>

record loop_state =
  now :: rat
  user_responses :: "response_record list"
  all_responses :: "response_record list"
  sleeps :: "(rat \<times> rat) list"

definition py_or :: "int \<Rightarrow> int \<Rightarrow> int" where
  "py_or a b = (if truthy_int a then a else b)"

definition message_interval :: "TestConfig \<Rightarrow> rat" where
  "message_interval config =
     (if test_type config = ''telegram-webhook''
      then max (1 / 100) (1 / of_int (py_or (users config) 10))
      else 1 / 10)"

definition get_default :: "int option \<Rightarrow> int \<Rightarrow> int" where
  "get_default v dflt = (case v of None \<Rightarrow> dflt | Some x \<Rightarrow> x)"

definition response_record_of :: "rat \<Rightarrow> rat \<Rightarrow> response_data \<Rightarrow> int \<Rightarrow> response_record" where
  "response_record_of t req_time_ms response_data idx =
     \<lparr>timestamp = t, response_time = req_time_ms,
      status_code = get_default (rd_status_code response_data) 0,
      size_bytes = get_default (rd_size response_data) 0,
      error = rd_error response_data, session_idx = idx\<rparr>"

definition error_record_of :: "rat \<Rightarrow> py_exn \<Rightarrow> int \<Rightarrow> response_record" where
  "error_record_of t e idx =
     \<lparr>timestamp = t, response_time = 0, status_code = 0, size_bytes = 0,
      error = Some (str_exn e), session_idx = idx\<rparr>"

text \<open>The \<open>try\<close>/\<open>except\<close> statement of the loop body: one attempt and its record.\<close>

definition attempt :: "user_env \<Rightarrow> TestConfig \<Rightarrow> int \<Rightarrow> nat \<Rightarrow> loop_state \<Rightarrow> loop_state" where
  "attempt env config idx k st =
     (let start_req_time = now st;
          end_req_time = start_req_time + of_nat (latency_at env k) / 1000000;
          req_time_ms = (end_req_time - start_req_time) * 1000
      in case request_func (random_at env k) start_req_time config (session_at env k) of
           Inr response_data \<Rightarrow>
             st\<lparr>now := end_req_time,
                user_responses := user_responses st
                   @ [response_record_of end_req_time req_time_ms response_data idx],
                all_responses := all_responses st
                   @ [response_record_of end_req_time req_time_ms response_data idx]\<rparr>
         | Inl e \<Rightarrow>
             st\<lparr>now := end_req_time,
                all_responses := all_responses st @ [error_record_of end_req_time e idx]\<rparr>)"

text \<open>\<open>time.sleep\<close> raises a ValueError on a negative argument.\<close>

definition py_sleep :: "rat \<Rightarrow> loop_state \<Rightarrow> py_exn + loop_state" where
  "py_sleep secs st =
     (if secs < 0 then Inl (ValueError ''sleep length must be non-negative'')
      else Inr (st\<lparr>now := now st + secs, sleeps := sleeps st @ [(now st, secs)]\<rparr>))"

function make_requests_loop ::
  "user_env \<Rightarrow> TestConfig \<Rightarrow> rat \<Rightarrow> int \<Rightarrow> nat \<Rightarrow> loop_state \<Rightarrow> py_exn + loop_state" where
  "make_requests_loop env config thread_end_time idx k st =
     (if active_at env (now st) \<and> now st < thread_end_time then
        (if thread_end_time - now (attempt env config idx k st) \<le> 0
         then Inr (attempt env config idx k st)
         else (case py_sleep (min (message_interval config)
                                 (max 0 (thread_end_time - now (attempt env config idx k st))))
                             (attempt env config idx k st) of
                 Inl e \<Rightarrow> Inl e
               | Inr st2 \<Rightarrow> make_requests_loop env config thread_end_time idx (Suc k) st2))
      else Inr st)"
  by pat_completeness auto
termination
proof (relation "measure (\<lambda>(env, config, thread_end_time, idx, k, st).
                   nat \<lceil>(thread_end_time - now st) / message_interval config\<rceil>)", goal_cases)
  case 1
  show ?case by simp
next
  case (2 env config thread_end_time idx k st st2)
  define I where "I = message_interval config"
  define st1 where "st1 = attempt env config idx k st"
  define rem where "rem = thread_end_time - now st1"
  have I_pos: "0 < I"
    unfolding I_def message_interval_def by (simp add: less_max_iff_disj)
  have now1: "now st \<le> now st1"
    unfolding st1_def attempt_def by (simp add: Let_def split: sum.splits)
  have rem_pos: "0 < rem" using 2(2) unfolding rem_def st1_def by simp
  have st2: "now st2 = now st1 + min I (max 0 rem)"
    using 2(3) unfolding py_sleep_def I_def st1_def rem_def
    by (auto split: if_splits)
  have lt: "now st < thread_end_time" using 2(1) by simp
  have x_pos: "0 < (thread_end_time - now st) / I" using lt I_pos by simp
  have "(thread_end_time - now st2) / I \<le> (thread_end_time - now st) / I - 1
        \<or> thread_end_time - now st2 = 0"
  proof (cases "I \<le> rem")
    case True
    then have "now st2 = now st1 + I" using st2 rem_pos by (simp add: min_def max_def)
    then have "thread_end_time - now st2 \<le> thread_end_time - now st - I" using now1 by simp
    then have "(thread_end_time - now st2) / I \<le> (thread_end_time - now st - I) / I"
      using I_pos by (simp add: divide_right_mono)
    also have "\<dots> = (thread_end_time - now st) / I - 1"
      using I_pos by (simp add: diff_divide_distrib)
    finally show ?thesis by simp
  next
    case False
    then have "now st2 = now st1 + rem" using st2 rem_pos by (simp add: min_def max_def)
    then show ?thesis unfolding rem_def by simp
  qed
  then have "nat \<lceil>(thread_end_time - now st2) / I\<rceil> < nat \<lceil>(thread_end_time - now st) / I\<rceil>"
  proof
    assume a: "(thread_end_time - now st2) / I \<le> (thread_end_time - now st) / I - 1"
    have "\<lceil>(thread_end_time - now st2) / I\<rceil> \<le> \<lceil>(thread_end_time - now st) / I - 1\<rceil>"
      using a by (rule ceiling_mono)
    also have "\<dots> = \<lceil>(thread_end_time - now st) / I\<rceil> - 1" by simp
    finally have "\<lceil>(thread_end_time - now st2) / I\<rceil> < \<lceil>(thread_end_time - now st) / I\<rceil>" by simp
    moreover have "0 < \<lceil>(thread_end_time - now st) / I\<rceil>" using x_pos by simp
    ultimately show ?thesis by simp
  next
    assume "thread_end_time - now st2 = 0"
    moreover have "0 < \<lceil>(thread_end_time - now st) / I\<rceil>" using x_pos by simp
    ultimately show ?thesis by simp
  qed
  then show ?case unfolding I_def by simp
qed

text \<open>
  \<open>make_requests_for_user\<close>: the loop from the time \<open>t0\<close> at which the worker starts
  running, with \<open>thread_end_time = start_time + config.duration\<close>.
\<close>

definition initial_state :: "rat \<Rightarrow> loop_state" where
  "initial_state t0 = \<lparr>now = t0, user_responses = [], all_responses = [], sleeps = []\<rparr>"

definition make_requests_for_user ::
  "user_env \<Rightarrow> TestConfig \<Rightarrow> rat \<Rightarrow> int \<Rightarrow> rat \<Rightarrow> py_exn + loop_state" where
  "make_requests_for_user env config start_time idx t0 =
     make_requests_loop env config (start_time + of_int (duration config)) idx 0
       (initial_state t0)"

section \<open>Ramp-up and worker submission in \<open>EnhancedHttpRunner.run_test\<close>\<close>

text \<open>
  The submission loop sleeps before each user but the first, then submits the user if the
  flag is still set. The model returns, for each submitted user, the sum of the sleeps
  made before its submission, that is its start offset from the beginning of the ramp-up
  when nothing else takes time. \<open>range(config.users)\<close> is empty unless there is at least
  one user, so the quotient is never a division by zero.
\<close>

definition rampup_delay :: "TestConfig \<Rightarrow> int \<Rightarrow> rat" where
  "rampup_delay config i = min ((of_int (rampup config) / of_int (users config)) * of_int i) 1"

fun submit_users :: "(rat \<Rightarrow> bool) \<Rightarrow> TestConfig \<Rightarrow> int list \<Rightarrow> rat \<Rightarrow> (int \<times> rat) list" where
  "submit_users active config [] t = []"
| "submit_users active config (i # rest) t =
     (let t1 = (if rampup config > 0 \<and> i > 0 then t + rampup_delay config i else t)
      in (if active t1 then [(i, t1)] else []) @ submit_users active config rest t1)"

definition py_range :: "int \<Rightarrow> int list" where
  "py_range n = map int [0..<nat n]"

text \<open>
  \<open>ThreadPoolExecutor(max_workers=...)\<close> raises a ValueError unless the bound is
  positive; the pool of the enhanced runner is bounded by fifty workers.
\<close>

definition thread_pool :: "int \<Rightarrow> py_exn + int" where
  "thread_pool max_workers =
     (if max_workers \<le> 0 then Inl (ValueError ''max_workers must be greater than 0'')
      else Inr max_workers)"

definition start_users :: "(rat \<Rightarrow> bool) \<Rightarrow> TestConfig \<Rightarrow> py_exn + (int \<times> rat) list" where
  "start_users active config =
     bind_exn (thread_pool (min (users config) 50))
       (\<lambda>pool. Inr (submit_users active config (py_range (users config)) 0))"

section \<open>Worker pool and first requests in \<open>SimpleHttpRunner.run_test\<close>\<close>

text \<open>
  \<open>make_request\<close> of the simple runner, and the batch
  \<open>{executor.submit(make_request, i): i for i in range(config.users)}\<close> that is submitted
  to a pool of \<open>config.users\<close> workers before the polling loop tests the deadline for the
  first time. The measured request time is a parameter; the records of this runner carry
  no timestamp (0 here).
\<close>

definition simple_make_request ::
  "bool \<Rightarrow> TestConfig \<Rightarrow> session \<Rightarrow> rat \<Rightarrow> int \<Rightarrow> response_record option" where
  "simple_make_request active config s req_time_ms user_id =
     (if \<not> active then None
      else Some (case session_get s (target_url config) of
                   Inr response \<Rightarrow>
                     \<lparr>timestamp = 0, response_time = req_time_ms,
                      status_code = resp_status_code response,
                      size_bytes = int (length (resp_content response)), error = None,
                      session_idx = user_id\<rparr>
                 | Inl e \<Rightarrow>
                     \<lparr>timestamp = 0, response_time = 0, status_code = 0, size_bytes = 0,
                      error = Some (str_exn e), session_idx = user_id\<rparr>))"

definition simple_first_batch ::
  "bool \<Rightarrow> TestConfig \<Rightarrow> session \<Rightarrow> rat \<Rightarrow> py_exn + response_record option list" where
  "simple_first_batch active config s req_time_ms =
     bind_exn (thread_pool (users config))
       (\<lambda>pool. Inr (map (simple_make_request active config s req_time_ms)
                       (py_range (users config))))"

section \<open>Command handlers (cli.py) and the configuration they edit (config.py)\<close>

record Config =
  cfg_framework :: "string option"
  cfg_test_type :: string
  cfg_target_url :: string
  cfg_users :: int
  cfg_duration :: int
  cfg_rampup :: int
  cfg_custom_params :: "(string \<times> py_value) list"

definition to_test_config :: "Config \<Rightarrow> TestConfig" where
  "to_test_config c =
     \<lparr>target_url = cfg_target_url c, users = cfg_users c, duration = cfg_duration c,
      rampup = cfg_rampup c, test_type = cfg_test_type c,
      framework = (case cfg_framework c of None \<Rightarrow> ''locust''
                   | Some f \<Rightarrow> if f = [] then ''locust'' else f),
      custom_params = Some (cfg_custom_params c)\<rparr>"

text \<open>
  \<open>Config.__init__\<close>, and \<open>Config.from_dict\<close> on the dictionary read from a saved
  configuration file (\<open>load_default_config\<close> applies it to \<open>configs/default.yaml\<close> when
  the program starts). A key that the file does not have is \<open>None\<close>; the values are taken
  to have the types of the fields.
\<close>

definition Config_init :: Config where
  "Config_init =
     \<lparr>cfg_framework = None, cfg_test_type = ''web-site'', cfg_target_url = [],
      cfg_users = 100, cfg_duration = 60, cfg_rampup = 10, cfg_custom_params = []\<rparr>"

record config_data =
  data_framework :: "string option"
  data_test_type :: "string option"
  data_target_url :: "string option"
  data_users :: "int option"
  data_duration :: "int option"
  data_rampup :: "int option"
  data_custom_params :: "(string \<times> py_value) list option"

definition from_dict :: "Config \<Rightarrow> config_data \<Rightarrow> Config" where
  "from_dict c data =
     c\<lparr>cfg_framework := data_framework data,
       cfg_test_type := (case data_test_type data of None \<Rightarrow> ''web-site'' | Some v \<Rightarrow> v),
       cfg_target_url := (case data_target_url data of None \<Rightarrow> [] | Some v \<Rightarrow> v),
       cfg_users := get_default (data_users data) 100,
       cfg_duration := get_default (data_duration data) 60,
       cfg_rampup := get_default (data_rampup data) 10,
       cfg_custom_params := (case data_custom_params data of None \<Rightarrow> [] | Some v \<Rightarrow> v)\<rparr>"

text \<open>
  Each handler returns the new configuration and the line it prints. \<open>int(...)\<close> on the
  argument is the library's parser, a parameter here.
\<close>

definition handle_url_command :: "Config \<Rightarrow> string option \<Rightarrow> Config \<times> string" where
  "handle_url_command c url =
     (case url of
        Some u \<Rightarrow> if u \<noteq> [] then (c\<lparr>cfg_target_url := u\<rparr>, ''URL set'')
                  else (c, ''Usage: /url <target-url>'')
      | None \<Rightarrow> (c, ''Usage: /url <target-url>''))"

definition handle_users_command ::
  "(string \<Rightarrow> py_exn + int) \<Rightarrow> Config \<Rightarrow> string option \<Rightarrow> Config \<times> string" where
  "handle_users_command int_of_str c users_str =
     (case users_str of
        Some s \<Rightarrow>
          if s \<noteq> [] then
            (case int_of_str s of
               Inr n \<Rightarrow> if n > 0 then (c\<lparr>cfg_users := n\<rparr>, ''Users set'')
                        else (c, ''Users must be a positive number.'')
             | Inl e \<Rightarrow> (c, ''Usage: /users <number>''))
          else (c, ''Usage: /users <number>'')
      | None \<Rightarrow> (c, ''Usage: /users <number>''))"

definition handle_duration_command ::
  "(string \<Rightarrow> py_exn + int) \<Rightarrow> Config \<Rightarrow> string option \<Rightarrow> Config \<times> string" where
  "handle_duration_command int_of_str c duration_str =
     (case duration_str of
        Some s \<Rightarrow>
          if s \<noteq> [] then
            (case int_of_str s of
               Inr n \<Rightarrow> if n > 0 then (c\<lparr>cfg_duration := n\<rparr>, ''Duration set'')
                        else (c, ''Duration must be a positive number.'')
             | Inl e \<Rightarrow> (c, ''Usage: /duration <seconds>''))
          else (c, ''Usage: /duration <seconds>'')
      | None \<Rightarrow> (c, ''Usage: /duration <seconds>''))"

text \<open>
  \<open>handle_run_command\<close> up to the call of \<open>runner.run_test\<close>: either it prints an error
  and returns (\<open>Inl\<close>), or it hands the converted configuration to a runner (\<open>Inr\<close>).
  The list of available frameworks is a parameter.
\<close>

datatype runner = SimpleHttpRunner | EnhancedHttpRunner | K6Runner

definition handle_run_command :: "string list \<Rightarrow> Config \<Rightarrow> string + (runner \<times> TestConfig)" where
  "handle_run_command available_frameworks c =
     (if cfg_target_url c = [] then Inl ''Error: No target URL specified.''
      else if \<not> (case cfg_framework c of None \<Rightarrow> False | Some f \<Rightarrow> f \<noteq> [])
        then Inl ''Error: No framework specified.''
      else if cfg_test_type c = [] then Inl ''Error: No test type specified.''
      else if the (cfg_framework c) \<notin> set available_frameworks
        then Inl ''Framework is not available on this system.''
      else if the (cfg_framework c) \<in> set [''simple'', ''http'']
        then Inr (SimpleHttpRunner, to_test_config c)
      else if the (cfg_framework c) \<in> set [''advanced'', ''builtin'']
        then Inr (EnhancedHttpRunner, to_test_config c)
      else if the (cfg_framework c) = ''k6'' then Inr (K6Runner, to_test_config c)
      else Inl ''Framework not yet implemented in this MVP.'')"

section \<open>Auxiliary notions for the statements\<close>

text \<open>Two results agree on the request counts and on the error rate.\<close>

definition same_counts :: "TestResults \<Rightarrow> TestResults \<Rightarrow> bool" where
  "same_counts a b \<longleftrightarrow> total_requests a = total_requests b
     \<and> successful_requests a = successful_requests b
     \<and> failed_requests a = failed_requests b \<and> error_rate a = error_rate b"

text \<open>Two results agree on the total, the rate and the two percentiles.\<close>

definition same_latency_tail :: "TestResults \<Rightarrow> TestResults \<Rightarrow> bool" where
  "same_latency_tail a b \<longleftrightarrow> total_requests a = total_requests b
     \<and> requests_per_second a = requests_per_second b
     \<and> p95_response_time a = p95_response_time b
     \<and> p99_response_time a = p99_response_time b"

text \<open>
  The error records that are not counted as failed, and the identity between the total and
  the three classes.
\<close>

definition error_not_failed :: "response_record list \<Rightarrow> response_record list" where
  "error_not_failed rs = filter (\<lambda>r. \<not> status_code r \<ge> 400) (error_responses rs)"

definition counts_add_up :: "response_record list \<Rightarrow> TestResults \<Rightarrow> bool" where
  "counts_add_up rs res \<longleftrightarrow>
     total_requests res
       = successful_requests res + failed_requests res + int (length (error_not_failed rs))"

text \<open>Reading one field of a result that may be an exception.\<close>

definition result_field :: "(TestResults \<Rightarrow> 'a) \<Rightarrow> py_exn + TestResults \<Rightarrow> py_exn + 'a" where
  "result_field f r = bind_exn r (\<lambda>res. Inr (f res))"

text \<open>
  The state after the sleep that follows an attempt, the clamping of every recorded sleep
  to the time left before the deadline \<open>E\<close>, and the relation between an error
  description and the status code of a record.
\<close>

definition slept :: "TestConfig \<Rightarrow> rat \<Rightarrow> loop_state \<Rightarrow> loop_state" where
  "slept config E st1 =
     st1\<lparr>now := now st1 + min (message_interval config) (E - now st1),
         sleeps := sleeps st1 @ [(now st1, min (message_interval config) (E - now st1))]\<rparr>"

definition clamped_sleeps :: "TestConfig \<Rightarrow> rat \<Rightarrow> loop_state \<Rightarrow> bool" where
  "clamped_sleeps config E st \<longleftrightarrow>
     (\<forall>(t, s) \<in> set (sleeps st). t < E \<and> s = min (message_interval config) (E - t)
                                  \<and> 0 \<le> s \<and> t + s \<le> E)"

definition error_means_no_response :: "response_record \<Rightarrow> bool" where
  "error_means_no_response r \<longleftrightarrow> (error r \<noteq> None \<longrightarrow> status_code r = 0 \<and> size_bytes r = 0)"

text \<open>
  A session that answers every request with a positive status code or with an exception
  whose message is not empty, and the records that fall in one of the three classes.
\<close>

definition answers_well :: "session \<Rightarrow> bool" where
  "answers_well s \<longleftrightarrow>
     (\<forall>req. case s req of Inr response \<Rightarrow> 0 < resp_status_code response
                          | Inl e \<Rightarrow> str_exn e \<noteq> [])"

definition classified :: "response_record \<Rightarrow> bool" where
  "classified r \<longleftrightarrow> 0 < status_code r \<or> truthy_str (error r)"

section \<open>Concrete records and configurations\<close>

definition ok_record :: response_record where
  "ok_record = \<lparr>timestamp = 1, response_time = 12, status_code = 200, size_bytes = 2048,
                 error = None, session_idx = 0\<rparr>"

definition not_found_record :: response_record where
  "not_found_record = \<lparr>timestamp = 2, response_time = 8, status_code = 404, size_bytes = 512,
                        error = None, session_idx = 1\<rparr>"

definition refused_record :: response_record where
  "refused_record = \<lparr>timestamp = 3, response_time = 0, status_code = 0, size_bytes = 0,
                      error = Some ''Connection refused'', session_idx = 0\<rparr>"

definition timeout_record :: response_record where
  "timeout_record = \<lparr>timestamp = 4, response_time = 0, status_code = 0, size_bytes = 0,
                      error = Some ''Read timed out'', session_idx = 1\<rparr>"

text \<open>\<open>n\<close> successful records with response times 1, 2, ..., n milliseconds.\<close>

definition timed_records :: "nat \<Rightarrow> response_record list" where
  "timed_records n =
     map (\<lambda>i. \<lparr>timestamp = 0, response_time = of_nat (Suc i), status_code = 200,
                 size_bytes = 0, error = None, session_idx = 0\<rparr>) [0..<n]"

definition sample_config :: TestConfig where
  "sample_config =
     \<lparr>target_url = ''http://x'', users = 10, duration = 5, rampup = 1,
      test_type = ''web-site'', framework = ''advanced'', custom_params = None\<rparr>"

text \<open>The configuration with the default values of \<open>TestConfig\<close>.\<close>

definition default_config :: TestConfig where
  "default_config =
     \<lparr>target_url = ''http://x'', users = 100, duration = 60, rampup = 10,
      test_type = ''web-site'', framework = ''locust'', custom_params = None\<rparr>"

text \<open>
  A session that refuses every connection, an environment in which each attempt takes
  0.95 seconds, and a configuration with a duration of one second.
\<close>

definition refusing_session :: session where
  "refusing_session req = Inl (PyExn ''ConnectionError'' ''Connection refused'')"

definition slow_env :: user_env where
  "slow_env = \<lparr>active_at = (\<lambda>t. True), session_at = (\<lambda>k. refusing_session),
                latency_at = (\<lambda>k. 950000), random_at = (\<lambda>k. (100000, 100000, 100000))\<rparr>"

definition short_config :: TestConfig where
  "short_config = sample_config\<lparr>duration := 1\<rparr>"

definition slow_record :: response_record where
  "slow_record = \<lparr>timestamp = 19 / 20, response_time = 950, status_code = 0, size_bytes = 0,
                   error = Some ''Connection refused'', session_idx = 0\<rparr>"

text \<open>
  A session whose every call raises an exception with an empty message (as
  \<open>str(Exception())\<close> is), the environment of a user with that session, and the record
  the loop of the enhanced runner appends for its single attempt; the simple runner stores
  response time 0 for the same failure.
\<close>

definition silent_session :: session where
  "silent_session req = Inl (PyExn ''Exception'' [])"

definition silent_env :: user_env where
  "silent_env = \<lparr>active_at = (\<lambda>t. True), session_at = (\<lambda>k. silent_session),
                  latency_at = (\<lambda>k. 950000), random_at = (\<lambda>k. (100000, 100000, 100000))\<rparr>"

definition silent_record :: response_record where
  "silent_record = \<lparr>timestamp = 19 / 20, response_time = 950, status_code = 0,
                     size_bytes = 0, error = Some [], session_idx = 0\<rparr>"

definition silent_record_simple :: response_record where
  "silent_record_simple = \<lparr>timestamp = 0, response_time = 0, status_code = 0,
                            size_bytes = 0, error = Some [], session_idx = 0\<rparr>"

text \<open>
  The frameworks that are always available; a saved configuration file with a target URL,
  the enhanced framework, one user and a duration of zero, and the configuration
  \<open>from_dict\<close> stores for it; a configuration without a target URL; a parser that reads
  the single digit zero; a session that answers 200 to a GET of the target and raises on
  anything else.
\<close>

definition zero_duration_data :: config_data where
  "zero_duration_data =
     \<lparr>data_framework = Some ''advanced'', data_test_type = Some ''web-site'',
      data_target_url = Some ''http://x'', data_users = Some 1, data_duration = Some 0,
      data_rampup = Some 0, data_custom_params = None\<rparr>"

definition get_only_session :: session where
  "get_only_session req =
     (if req = \<lparr>req_method = ''GET'', req_url = ''http://x'', req_json = None\<rparr>
      then Inr \<lparr>resp_status_code = 200, resp_content = ''ok''\<rparr>
      else Inl (PyExn ''ConnectionError'' ''unexpected request''))"

definition builtin_frameworks :: "string list" where
  "builtin_frameworks = [''simple'', ''http'', ''advanced'', ''builtin'']"

definition zero_duration_config :: Config where
  "zero_duration_config =
     \<lparr>cfg_framework = Some ''advanced'', cfg_test_type = ''web-site'',
      cfg_target_url = ''http://x'', cfg_users = 1, cfg_duration = 0, cfg_rampup = 0,
      cfg_custom_params = []\<rparr>"

definition parse_digit_zero :: "string \<Rightarrow> py_exn + int" where
  "parse_digit_zero s = (if s = ''0'' then Inr 0 else Inl (ValueError ''invalid literal''))"

section \<open>Basic facts about the primitives\<close>

lemma bind_exn_Inr [simp]: "bind_exn (Inr x) f = f x"
  by (simp add: bind_exn_def)

lemma bind_exn_Inl [simp]: "bind_exn (Inl e) f = Inl e"
  by (simp add: bind_exn_def)

lemma py_truediv_Inr: "b \<noteq> 0 \<Longrightarrow> py_truediv a b = Inr (a / b)"
  by (simp add: py_truediv_def)

lemma py_getitem_Inr: "0 \<le> i \<Longrightarrow> i < int (length xs) \<Longrightarrow> py_getitem xs i = Inr (xs ! nat i)"
  by (simp add: py_getitem_def)

section \<open>The aggregation never raises and fixes the counts first\<close>


lemma py_min_Inr: "xs \<noteq> [] \<Longrightarrow> \<exists>v. py_min xs = Inr v"
  by (cases xs) (simp_all add: py_min_def)

lemma py_max_Inr: "xs \<noteq> [] \<Longrightarrow> \<exists>v. py_max xs = Inr v"
  by (cases xs) (simp_all add: py_max_def)

lemma py_int_percent:
  assumes "0 \<le> p" "0 \<le> n"
  shows "py_int ((of_int p / 100) * of_int n) = (p * n) div 100"
proof -
  have eq: "(of_int p / 100) * (of_int n :: rat) = of_int (p * n) / of_int 100" by simp
  have "0 \<le> (of_int p / 100) * (of_int n :: rat)" using assms by simp
  then have "py_int ((of_int p / 100) * of_int n) = \<lfloor>(of_int p / 100) * (of_int n :: rat)\<rfloor>"
    by (simp add: py_int_def)
  also have "\<dots> = (p * n) div 100"
    unfolding eq by (rule floor_divide_of_int_eq)
  finally show ?thesis .
qed

lemma p95_idx_eq: "p95_idx rts = (95 * int (length rts)) div 100"
  using py_int_percent [of 95 "int (length rts)"] by (simp add: p95_idx_def)

lemma p99_idx_eq: "p99_idx rts = (99 * int (length rts)) div 100"
  using py_int_percent [of 99 "int (length rts)"] by (simp add: p99_idx_def)

lemma percent_idx_range:
  "0 \<le> (n::int) \<Longrightarrow> 0 \<le> 95 * n div 100 \<and> 0 \<le> 99 * n div 100
     \<and> (0 < n \<longrightarrow> 95 * n div 100 < n \<and> 99 * n div 100 < n)"
  by (auto simp: pos_imp_zdiv_nonneg_iff; linarith)

lemma half_range: "0 < (n::int) \<Longrightarrow> 0 \<le> n div 2 \<and> n div 2 < n"
  by (auto; linarith)

lemma sort_not_Nil: "rts \<noteq> [] \<Longrightarrow> sort rts \<noteq> []"
proof
  assume "rts \<noteq> []" and "sort rts = []"
  then have "length (sort rts) = length ([] :: 'a list)" by (simp only:)
  then show False using \<open>rts \<noteq> []\<close> by simp
qed

lemma p95_idx_range: "0 \<le> p95_idx rts \<and> (rts \<noteq> [] \<longrightarrow> p95_idx rts < int (length rts))"
  unfolding p95_idx_eq using percent_idx_range [of "int (length rts)"] by simp

lemma p99_idx_range: "0 \<le> p99_idx rts \<and> (rts \<noteq> [] \<longrightarrow> p99_idx rts < int (length rts))"
  unfolding p99_idx_eq using percent_idx_range [of "int (length rts)"] by simp

lemma set_percentiles_eq:
  "rts \<noteq> [] \<Longrightarrow> set_percentiles rts res =
     Inr (res\<lparr>p95_response_time := rts ! nat (p95_idx rts),
              p99_response_time := rts ! nat (p99_idx rts)\<rparr>)"
  by (simp add: set_percentiles_def p95_idx_range p99_idx_range py_getitem_Inr)

lemma median_min_max_ok:
  "rts \<noteq> [] \<Longrightarrow> \<exists>r. median_min_max rts res = Inr r \<and> same_counts r res"
proof -
  assume ne: "rts \<noteq> []"
  then have len: "0 < int (length rts)" by simp
  have idx: "0 \<le> int (length rts) div 2" "int (length rts) div 2 < int (length rts)"
    using half_range [OF len] by blast+
  obtain mn mx where "py_min rts = Inr mn" "py_max rts = Inr mx"
    using py_min_Inr [OF ne] py_max_Inr [OF ne] by blast
  then show ?thesis
    using len by (simp add: median_min_max_def py_getitem_Inr [OF idx] same_counts_def)
qed

lemma set_rps_ok: "\<exists>r. set_rps d res = Inr r \<and> same_counts r res"
  by (simp add: set_rps_def py_truediv_Inr same_counts_def)

lemma percentiles_enhanced_ok:
  "rts \<noteq> [] \<Longrightarrow> \<exists>r. percentiles_enhanced rts res = Inr r \<and> same_counts r res"
  by (simp add: percentiles_enhanced_def set_percentiles_eq same_counts_def)

lemma same_counts_trans: "same_counts a b \<Longrightarrow> same_counts b c \<Longrightarrow> same_counts a c"
  by (simp add: same_counts_def)

lemma response_time_stats_ok:
  "\<exists>r. response_time_stats d rts res = Inr r \<and> same_counts r res"
proof (cases "rts = []")
  case True
  then show ?thesis by (simp add: response_time_stats_def same_counts_def)
next
  case False
  have ne: "sort rts \<noteq> []" using False by (simp add: sort_not_Nil)
  have len: "rat_of_int (int (length (sort rts))) \<noteq> 0" using False by simp
  define res0 where "res0 = res\<lparr>avg_response_time := sum_list (sort rts) / of_nat (length rts)\<rparr>"
  have c0: "same_counts res0 res" by (simp add: res0_def same_counts_def)
  obtain r1 where r1: "median_min_max (sort rts) res0 = Inr r1" "same_counts r1 res0"
    using median_min_max_ok [OF ne] by blast
  obtain r2 where r2: "percentiles_enhanced (sort rts) r1 = Inr r2" "same_counts r2 r1"
    using percentiles_enhanced_ok [OF ne] by blast
  obtain r3 where r3: "set_rps d r2 = Inr r3" "same_counts r3 r2"
    using set_rps_ok by blast
  have "response_time_stats d rts res = Inr r3"
    using False r1 r2 r3 unfolding response_time_stats_def Let_def res0_def
    by (simp add: py_truediv_Inr)
  moreover have "same_counts r3 res"
    using r3 r2 r1 c0 by (blast intro: same_counts_trans)
  ultimately show ?thesis by blast
qed

lemma set_data_transfer_ok: "\<exists>r. set_data_transfer rs res = Inr r \<and> same_counts r res"
  by (simp add: set_data_transfer_def py_truediv_Inr same_counts_def)

lemma aggregate_enhanced_counts:
  assumes "rs \<noteq> []"
  shows "\<exists>res. aggregate_enhanced d elapsed rs = Inr res
           \<and> total_requests res = int (length rs)
           \<and> successful_requests res = int (length (successful_responses rs))
           \<and> failed_requests res = int (length (failed_responses rs))
           \<and> error_rate res = of_int (int (length (failed_responses rs)) + int (length (error_responses rs)))
                                 / of_int (int (length rs)) * 100"
proof -
  define res0 where "res0 = TestResults_default\<lparr>res_duration := d,
       total_requests := int (length rs),
       successful_requests := int (length (successful_responses rs)),
       failed_requests := int (length (failed_responses rs))\<rparr>"
  define res1 where "res1 = res0\<lparr>error_rate := of_int (int (length (failed_responses rs)) + int (length (error_responses rs)))
                                 / of_int (int (length rs)) * 100\<rparr>"
  have tot: "total_requests res0 = int (length rs)" by (simp add: res0_def)
  have pos: "0 < int (length rs)" using assms by simp
  have e1: "set_error_rate rs res0 = Inr res1"
    using pos assms unfolding set_error_rate_def res1_def tot
    by (simp add: py_truediv_Inr)
  obtain r2 where r2: "response_time_stats elapsed (positive_times rs) res1 = Inr r2" "same_counts r2 res1"
    using response_time_stats_ok by blast
  obtain r3 where r3: "set_data_transfer rs r2 = Inr r3" "same_counts r3 r2"
    using set_data_transfer_ok by blast
  have "aggregate_enhanced d elapsed rs
          = Inr (r3\<lparr>errors := Some (count_errors rs Map.empty)\<rparr>)"
    using assms e1 r2 r3 unfolding aggregate_enhanced_def Let_def res0_def by simp
  moreover have "same_counts (r3\<lparr>errors := Some (count_errors rs Map.empty)\<rparr>) res1"
    using r2 r3 by (simp add: same_counts_def)
  ultimately show ?thesis
    by (simp add: same_counts_def res1_def res0_def)
qed

section \<open>Percentiles and rate of the enhanced runner, in general\<close>

text \<open>
  When some record has a positive response time, the enhanced runner reports the elements
  at the indices \<open>95 * n div 100\<close> and \<open>99 * n div 100\<close> of the sorted positive
  times if there are at least twenty of them and leaves both percentiles at zero
  otherwise, and it reports the rate total / elapsed when the elapsed time is positive.
  When no record has a positive response time, percentiles and rate all stay at zero.
\<close>

lemma median_min_max_tail:
  "rts \<noteq> [] \<Longrightarrow> \<exists>r. median_min_max rts res = Inr r \<and> same_latency_tail r res"
proof -
  assume ne: "rts \<noteq> []"
  then have len: "0 < int (length rts)" by simp
  have idx: "0 \<le> int (length rts) div 2" "int (length rts) div 2 < int (length rts)"
    using half_range [OF len] by blast+
  obtain mn mx where "py_min rts = Inr mn" "py_max rts = Inr mx"
    using py_min_Inr [OF ne] py_max_Inr [OF ne] by blast
  then show ?thesis
    using len by (simp add: median_min_max_def py_getitem_Inr [OF idx] same_latency_tail_def)
qed

lemma response_time_stats_tail:
  assumes "rts \<noteq> []"
  shows "\<exists>r. response_time_stats d rts res = Inr r
           \<and> p95_response_time r = (if 20 \<le> length rts then sort rts ! nat (p95_idx rts)
                                     else p95_response_time res)
           \<and> p99_response_time r = (if 20 \<le> length rts then sort rts ! nat (p99_idx rts)
                                     else p99_response_time res)
           \<and> requests_per_second r = (if 0 < d then of_int (total_requests res) / d
                                       else requests_per_second res)"
proof -
  have ne: "sort rts \<noteq> []" using assms by (simp add: sort_not_Nil)
  define res0 where "res0 = res\<lparr>avg_response_time := sum_list (sort rts) / of_nat (length rts)\<rparr>"
  obtain r1 where r1: "median_min_max (sort rts) res0 = Inr r1" "same_latency_tail r1 res0"
    using median_min_max_tail [OF ne] by blast
  have idx: "p95_idx (sort rts) = p95_idx rts" "p99_idx (sort rts) = p99_idx rts"
    by (simp_all add: p95_idx_def p99_idx_def)
  define r2 where "r2 = (if 20 \<le> length rts
                         then r1\<lparr>p95_response_time := sort rts ! nat (p95_idx rts),
                                 p99_response_time := sort rts ! nat (p99_idx rts)\<rparr>
                         else r1)"
  have p: "percentiles_enhanced (sort rts) r1 = Inr r2"
    using assms by (simp add: percentiles_enhanced_def set_percentiles_eq [OF ne] idx r2_def)
  define r3 where "r3 = (if 0 < d then r2\<lparr>requests_per_second := of_int (total_requests r2) / d\<rparr>
                         else r2)"
  have s: "set_rps d r2 = Inr r3"
    by (simp add: set_rps_def py_truediv_Inr r3_def)
  have "response_time_stats d rts res = Inr r3"
    using assms r1 p s unfolding response_time_stats_def Let_def res0_def
    by (simp add: py_truediv_Inr)
  moreover have "p95_response_time r3 = (if 20 \<le> length rts then sort rts ! nat (p95_idx rts)
                                     else p95_response_time res)"
    using r1(2) by (simp add: r3_def r2_def same_latency_tail_def res0_def)
  moreover have "p99_response_time r3 = (if 20 \<le> length rts then sort rts ! nat (p99_idx rts)
                                     else p99_response_time res)"
    using r1(2) by (simp add: r3_def r2_def same_latency_tail_def res0_def)
  moreover have "requests_per_second r3 = (if 0 < d then of_int (total_requests res) / d
                                       else requests_per_second res)"
    using r1(2) by (simp add: r3_def r2_def same_latency_tail_def res0_def)
  ultimately show ?thesis by blast
qed

lemma aggregate_enhanced_latency:
  assumes "positive_times rs \<noteq> []"
  shows "\<exists>res. aggregate_enhanced d elapsed rs = Inr res
           \<and> p95_response_time res
               = (if 20 \<le> length (positive_times rs)
                  then sort (positive_times rs) ! nat (95 * int (length (positive_times rs)) div 100)
                  else 0)
           \<and> p99_response_time res
               = (if 20 \<le> length (positive_times rs)
                  then sort (positive_times rs) ! nat (99 * int (length (positive_times rs)) div 100)
                  else 0)
           \<and> requests_per_second res
               = (if 0 < elapsed then of_int (int (length rs)) / elapsed else 0)"
proof -
  have ne: "rs \<noteq> []" using assms by (auto simp: positive_times_def)
  define res0 where "res0 = TestResults_default\<lparr>res_duration := d,
       total_requests := int (length rs),
       successful_requests := int (length (successful_responses rs)),
       failed_requests := int (length (failed_responses rs))\<rparr>"
  define res1 where "res1 = res0\<lparr>error_rate := of_int (int (length (failed_responses rs)) + int (length (error_responses rs)))
                                 / of_int (int (length rs)) * 100\<rparr>"
  have e1: "set_error_rate rs res0 = Inr res1"
    using ne unfolding set_error_rate_def res1_def res0_def
    by (simp add: py_truediv_Inr)
  have f1: "total_requests res1 = int (length rs)" "p95_response_time res1 = 0"
      "p99_response_time res1 = 0" "requests_per_second res1 = 0"
    by (simp_all add: res1_def res0_def TestResults_default_def)
  obtain r2 where r2: "response_time_stats elapsed (positive_times rs) res1 = Inr r2"
      "p95_response_time r2 = (if 20 \<le> length (positive_times rs)
                                then sort (positive_times rs) ! nat (p95_idx (positive_times rs)) else 0)"
      "p99_response_time r2 = (if 20 \<le> length (positive_times rs)
                                then sort (positive_times rs) ! nat (p99_idx (positive_times rs)) else 0)"
      "requests_per_second r2 = (if 0 < elapsed then of_int (int (length rs)) / elapsed else 0)"
    using response_time_stats_tail [OF assms, of elapsed res1] unfolding f1 by blast
  define r3 where "r3 = r2\<lparr>data_sent_mb := 0,
       data_received_mb := of_int (sum_list (map size_bytes rs)) / (1024 * 1024)\<rparr>"
  have d3: "set_data_transfer rs r2 = Inr r3"
    by (simp add: set_data_transfer_def py_truediv_Inr r3_def)
  have "aggregate_enhanced d elapsed rs
          = Inr (r3\<lparr>errors := Some (count_errors rs Map.empty)\<rparr>)"
    using ne e1 r2(1) d3 unfolding aggregate_enhanced_def Let_def res0_def by simp
  then show ?thesis
    using r2(2,3,4) by (simp add: r3_def p95_idx_eq p99_idx_eq)
qed

lemma aggregate_enhanced_no_latency:
  assumes "rs \<noteq> []" "positive_times rs = []"
  shows "\<exists>res. aggregate_enhanced d elapsed rs = Inr res
           \<and> p95_response_time res = 0 \<and> p99_response_time res = 0
           \<and> requests_per_second res = 0"
proof -
  define res0 where "res0 = TestResults_default\<lparr>res_duration := d,
       total_requests := int (length rs),
       successful_requests := int (length (successful_responses rs)),
       failed_requests := int (length (failed_responses rs))\<rparr>"
  define res1 where "res1 = res0\<lparr>error_rate := of_int (int (length (failed_responses rs)) + int (length (error_responses rs)))
                                 / of_int (int (length rs)) * 100\<rparr>"
  have e1: "set_error_rate rs res0 = Inr res1"
    using assms(1) unfolding set_error_rate_def res1_def res0_def
    by (simp add: py_truediv_Inr)
  have r2: "response_time_stats elapsed (positive_times rs) res1 = Inr res1"
    using assms(2) by (simp add: response_time_stats_def)
  define r3 where "r3 = res1\<lparr>data_sent_mb := 0,
       data_received_mb := of_int (sum_list (map size_bytes rs)) / (1024 * 1024)\<rparr>"
  have d3: "set_data_transfer rs res1 = Inr r3"
    by (simp add: set_data_transfer_def py_truediv_Inr r3_def)
  have "aggregate_enhanced d elapsed rs
          = Inr (r3\<lparr>errors := Some (count_errors rs Map.empty)\<rparr>)"
    using assms(1) e1 r2 d3 unfolding aggregate_enhanced_def Let_def res0_def by simp
  then show ?thesis
    by (simp add: r3_def res1_def res0_def TestResults_default_def)
qed

section \<open>Empty collection\<close>

text \<open>
  C7. With no records the aggregation returns normally (no exception), and every count,
  rate, latency statistic, percentile and data-transfer field of the result is zero: the
  result is the default \<open>TestResults\<close> with only the configured duration filled in
  (and no error mapping). The simple runner behaves alike.
\<close>

theorem aggregate_empty_all_zero:
  "aggregate_enhanced d elapsed [] =
     Inr \<lparr>total_requests = 0, successful_requests = 0, failed_requests = 0,
          requests_per_second = 0, avg_response_time = 0, median_response_time = 0,
          p95_response_time = 0, p99_response_time = 0, min_response_time = 0,
          max_response_time = 0, error_rate = 0, errors = None, data_sent_mb = 0,
          data_received_mb = 0, res_duration = d\<rparr>
   \<and> aggregate_simple d elapsed [] =
     Inr \<lparr>total_requests = 0, successful_requests = 0, failed_requests = 0,
          requests_per_second = 0, avg_response_time = 0, median_response_time = 0,
          p95_response_time = 0, p99_response_time = 0, min_response_time = 0,
          max_response_time = 0, error_rate = 0, errors = None, data_sent_mb = 0,
          data_received_mb = 0, res_duration = d\<rparr>"
  by (simp add: aggregate_enhanced_def aggregate_simple_def TestResults_default_def)

section \<open>Classification of records and the error rate\<close>

lemma filter_disjoint_length:
  "\<forall>x\<in>set xs. \<not> (P x \<and> Q x) \<Longrightarrow> length (filter P xs) + length (filter Q xs) \<le> length xs"
  by (induction xs) auto

lemma three_classes_length:
  "\<forall>x\<in>set xs. (P x \<and> \<not> Q x \<and> \<not> R x) \<or> (\<not> P x \<and> Q x \<and> \<not> R x) \<or> (\<not> P x \<and> \<not> Q x \<and> R x)
   \<Longrightarrow> length (filter P xs) + length (filter Q xs) + length (filter R xs) = length xs"
  by (induction xs) auto

lemma error_rate_bound:
  assumes "rs \<noteq> []" and inv: "\<forall>r\<in>set rs. error r \<noteq> None \<longrightarrow> status_code r = 0"
  shows "\<exists>res. aggregate_enhanced d elapsed rs = Inr res \<and> 0 \<le> error_rate res \<and> error_rate res \<le> 100"
proof -
  define q :: rat where "q = of_int (int (length (failed_responses rs)) + int (length (error_responses rs)))
                                 / of_int (int (length rs))"
  obtain res where res: "aggregate_enhanced d elapsed rs = Inr res"
      "error_rate res = q * 100"
    using aggregate_enhanced_counts [OF assms(1)] unfolding q_def by blast
  have "length (failed_responses rs) + length (error_responses rs) \<le> length rs"
    unfolding failed_responses_def error_responses_def
    by (rule filter_disjoint_length) (use inv in \<open>auto simp: truthy_str_def split: option.splits\<close>)
  then have le: "(of_int (int (length (failed_responses rs)) + int (length (error_responses rs))) :: rat)
                  \<le> of_int (int (length rs))"
    by (metis of_int_le_iff of_nat_add of_nat_le_iff)
  have pos: "(0::rat) < of_int (int (length rs))" using assms(1) by simp
  have q1: "q \<le> 1" unfolding q_def using le pos by (simp only: divide_le_eq_1_pos)
  have q0: "0 \<le> q" unfolding q_def by simp
  have "0 \<le> q * 100" "q * 100 \<le> 100" using q0 q1 by simp_all
  then show ?thesis using res by auto
qed

text \<open>
  What the aggregation of the enhanced runner computes for every non-empty collection: a
  record counts as successful iff its status code lies strictly between 0 and 400 and its
  error description is not truthy, as failed iff its status code is at least 400, and the
  error rate is (failed + records with a truthy error description) / total * 100. The
  total is the sum of the three classes when every record has a positive status code or a
  truthy error description.
\<close>

lemma classification_of_records:
  assumes "rs \<noteq> []"
  shows "\<exists>res. aggregate_enhanced d elapsed rs = Inr res
     \<and> total_requests res = int (length rs)
     \<and> successful_requests res
         = int (length (filter (\<lambda>r. 0 < status_code r \<and> status_code r < 400
                                      \<and> \<not> truthy_str (error r)) rs))
     \<and> failed_requests res = int (length (filter (\<lambda>r. status_code r \<ge> 400) rs))
     \<and> error_rate res
         = of_int (failed_requests res + int (length (filter (\<lambda>r. truthy_str (error r)) rs)))
             / of_int (total_requests res) * 100
     \<and> ((\<forall>r\<in>set rs. classified r) \<longrightarrow> counts_add_up rs res)"
proof -
  obtain res where res: "aggregate_enhanced d elapsed rs = Inr res"
      "total_requests res = int (length rs)"
      "successful_requests res = int (length (successful_responses rs))"
      "failed_requests res = int (length (failed_responses rs))"
      "error_rate res = of_int (int (length (failed_responses rs)) + int (length (error_responses rs)))
                                 / of_int (int (length rs)) * 100"
    using aggregate_enhanced_counts [OF assms] by blast
  have s: "successful_responses rs
             = filter (\<lambda>r. 0 < status_code r \<and> status_code r < 400 \<and> \<not> truthy_str (error r)) rs"
    unfolding successful_responses_def truthy_int_def by (rule filter_cong) auto
  have f: "failed_responses rs = filter (\<lambda>r. status_code r \<ge> 400) rs"
    unfolding failed_responses_def truthy_int_def by (rule filter_cong) auto
  have e: "error_responses rs = filter (\<lambda>r. truthy_str (error r)) rs"
    by (simp add: error_responses_def)
  have enf: "error_not_failed rs = filter (\<lambda>r. truthy_str (error r) \<and> \<not> status_code r \<ge> 400) rs"
    unfolding error_not_failed_def e by (simp add: conj_commute)
  have add: "counts_add_up rs res" if h: "\<forall>r\<in>set rs. classified r"
  proof -
    have "length (filter (\<lambda>r. 0 < status_code r \<and> status_code r < 400 \<and> \<not> truthy_str (error r)) rs)
          + length (filter (\<lambda>r. status_code r \<ge> 400) rs)
          + length (filter (\<lambda>r. truthy_str (error r) \<and> \<not> status_code r \<ge> 400) rs) = length rs"
      by (rule three_classes_length) (use h in \<open>force simp: classified_def\<close>)
    then show ?thesis
      unfolding counts_add_up_def res(2,3,4) s f enf by linarith
  qed
  show ?thesis
    using res add unfolding s f e by auto
qed

section \<open>Single request execution\<close>

lemma try_except_total:
  "try_except (bind_exn body (\<lambda>response. Inr (success_data response))) (\<lambda>e. Inr (failure_data e))
     = Inr (case body of Inl e \<Rightarrow> failure_data e | Inr response \<Rightarrow> success_data response)"
  by (cases body) (simp_all add: try_except_def)

lemma failure_data_eq:
  "failure_data e = \<lparr>rd_status_code = Some 0, rd_size = Some 0, rd_error = Some (str_exn e)\<rparr>"
  by (simp add: failure_data_def)

lemma success_data_eq:
  "success_data response
     = \<lparr>rd_status_code = Some (resp_status_code response),
        rd_size = Some (int (length (resp_content response))), rd_error = None\<rparr>"
  by (simp add: success_data_def content_size_def)

text \<open>
  C6. For every configuration, test type and behaviour of the session, a request function
  returns a dictionary and never an exception: if the call of the transport (or anything
  before it in the \<open>try\<close> body) raises, the result has status code 0, size 0 and the
  message of the exception as error description; otherwise it has the status code of the
  response, the length of its content as size, and no error.
\<close>

theorem request_never_raises:
  "request_func rnd t config s
     = Inr (case transport_outcome rnd t config s of
              Inl e \<Rightarrow> failure_data e | Inr response \<Rightarrow> success_data response)
   \<and> make_web_request config s
     = Inr (case web_response config s of
              Inl e \<Rightarrow> failure_data e | Inr response \<Rightarrow> success_data response)
   \<and> make_api_request config s
     = Inr (case api_response config s of
              Inl e \<Rightarrow> failure_data e | Inr response \<Rightarrow> success_data response)
   \<and> make_webhook_request rnd t config s
     = Inr (case webhook_response rnd t config s of
              Inl e \<Rightarrow> failure_data e | Inr response \<Rightarrow> success_data response)
   \<and> failure_data e = \<lparr>rd_status_code = Some 0, rd_size = Some 0, rd_error = Some (str_exn e)\<rparr>
   \<and> success_data response
     = \<lparr>rd_status_code = Some (resp_status_code response),
        rd_size = Some (int (length (resp_content response))), rd_error = None\<rparr>"
proof -
  have web: "make_web_request config s
     = Inr (case web_response config s of
              Inl e \<Rightarrow> failure_data e | Inr response \<Rightarrow> success_data response)"
    unfolding make_web_request_def by (rule try_except_total)
  have api: "make_api_request config s
     = Inr (case api_response config s of
              Inl e \<Rightarrow> failure_data e | Inr response \<Rightarrow> success_data response)"
    unfolding make_api_request_def by (rule try_except_total)
  have hook: "make_webhook_request rnd t config s
     = Inr (case webhook_response rnd t config s of
              Inl e \<Rightarrow> failure_data e | Inr response \<Rightarrow> success_data response)"
    unfolding make_webhook_request_def by (rule try_except_total)
  have disp: "request_func rnd t config s
     = Inr (case transport_outcome rnd t config s of
              Inl e \<Rightarrow> failure_data e | Inr response \<Rightarrow> success_data response)"
    unfolding request_func_def transport_outcome_def using web api hook by simp
  show ?thesis
    using disp web api hook failure_data_eq [of e] success_data_eq [of response] by blast
qed

section \<open>Error categories\<close>

lemma str_int_404: "str_int 404 = ''404''"
  by code_simp

text \<open>
  C1 at a concrete input. Two transport failures with different descriptions and one 404
  response: both runners count the two failures under the single label \<open>str\<close> (the
  class name of the stored description), not under their descriptions; the 404 is counted
  under its stringified status code.
\<close>

theorem error_labels_collapse_to_str:
  "result_field errors (aggregate_enhanced 60 10 [refused_record, timeout_record, not_found_record])
     = Inr (Some [''str'' \<mapsto> 2, ''404'' \<mapsto> 1])
   \<and> result_field errors (aggregate_simple 60 10 [refused_record, timeout_record, not_found_record])
     = Inr (Some [''str'' \<mapsto> 2, ''404'' \<mapsto> 1])"
  by (simp add: result_field_def aggregate_enhanced_def aggregate_simple_def
      refused_record_def timeout_record_def not_found_record_def TestResults_default_def
      successful_responses_def failed_responses_def error_responses_def truthy_int_def
      successful_responses_simple_def error_responses_simple_def set_error_rate_simple_def
      truthy_str_def set_error_rate_def py_truediv_def positive_times_def
      response_time_stats_def median_min_max_def py_getitem_def py_min_def py_max_def
      response_time_stats_simple_def median_min_max_simple_def percentiles_simple_def
      percentiles_enhanced_def set_rps_def set_data_transfer_def set_percentiles_def
      p95_idx_def p99_idx_def py_int_def bump_def error_type_def hasattr_class_def
      class_name_def str_int_404)

section \<open>Requests per second\<close>

text \<open>
  C2 at a concrete input. Two records, both with response time zero (what the simple
  runner stores for a failed request), and ten seconds of elapsed time: the total is 2 but
  the reported rate stays at its zero default, because the rate is computed inside the
  block guarded by \<open>if response_times\<close>.
\<close>

theorem rps_zero_when_no_positive_time:
  "result_field total_requests (aggregate_simple 60 10 [refused_record, timeout_record]) = Inr 2
   \<and> result_field requests_per_second (aggregate_simple 60 10 [refused_record, timeout_record]) = Inr 0
   \<and> result_field total_requests (aggregate_enhanced 60 10 [refused_record, timeout_record]) = Inr 2
   \<and> result_field requests_per_second (aggregate_enhanced 60 10 [refused_record, timeout_record]) = Inr 0"
  by (simp add: result_field_def aggregate_enhanced_def aggregate_simple_def
      refused_record_def timeout_record_def TestResults_default_def
      successful_responses_def failed_responses_def error_responses_def truthy_int_def
      successful_responses_simple_def error_responses_simple_def set_error_rate_simple_def
      truthy_str_def set_error_rate_def py_truediv_def positive_times_def
      response_time_stats_def response_time_stats_simple_def set_data_transfer_def)

section \<open>Ramp-up\<close>

text \<open>
  C3 at a concrete input. Ten users and a ramp-up of one second: the sleeps before the
  users are 0.1, 0.2, ..., 0.9 seconds, so the start offsets are their running sums. The
  second user starts at 0.3 (not 0.2) and the last at 4.5 seconds, beyond the ramp-up
  window of one second. With the default configuration (100 users, ramp-up 10 seconds,
  duration 60 seconds) the last user is submitted after 94.5 seconds of sleeps, past the
  end of the test.
\<close>

theorem rampup_offsets_accumulate:
  "start_users (\<lambda>t. True) sample_config
     = Inr [(0, 0), (1, 1 / 10), (2, 3 / 10), (3, 3 / 5), (4, 1), (5, 3 / 2), (6, 21 / 10),
            (7, 14 / 5), (8, 18 / 5), (9, 9 / 2)]
   \<and> bind_exn (start_users (\<lambda>t. True) default_config) (\<lambda>subs. Inr (last subs))
     = Inr (99, 189 / 2)"
  by code_simp

section \<open>Percentiles\<close>

text \<open>
  C4 at concrete inputs. With 19 positive response times 1, ..., 19 the simple runner
  reports the element at index 18 for both percentiles, while the enhanced runner leaves
  them at zero; with 20 times the enhanced runner reports the element at index 19.
\<close>

theorem simple_runner_percentiles_below_twenty:
  "result_field p95_response_time (aggregate_simple 60 10 (timed_records 19)) = Inr 19
   \<and> result_field p99_response_time (aggregate_simple 60 10 (timed_records 19)) = Inr 19
   \<and> result_field p95_response_time (aggregate_enhanced 60 10 (timed_records 19)) = Inr 0
   \<and> result_field p99_response_time (aggregate_enhanced 60 10 (timed_records 19)) = Inr 0
   \<and> result_field p95_response_time (aggregate_enhanced 60 10 (timed_records 20)) = Inr 20
   \<and> result_field p99_response_time (aggregate_enhanced 60 10 (timed_records 20)) = Inr 20"
  by code_simp

section \<open>The request loop and the deadline\<close>

declare make_requests_loop.simps [simp del]

lemma message_interval_pos: "0 < message_interval config"
  by (simp add: message_interval_def less_max_iff_disj)

lemma request_func_eq:
  "request_func rnd t config s
     = Inr (case transport_outcome rnd t config s of
              Inl e \<Rightarrow> failure_data e | Inr response \<Rightarrow> success_data response)"
  unfolding request_func_def transport_outcome_def make_web_request_def make_api_request_def
    make_webhook_request_def
  by (simp add: try_except_total)

lemma attempt_now: "now (attempt env config idx k st) = now st + of_nat (latency_at env k) / 1000000"
  by (simp add: attempt_def Let_def request_func_eq)

lemma attempt_sleeps: "sleeps (attempt env config idx k st) = sleeps st"
  by (simp add: attempt_def Let_def request_func_eq)

lemma attempt_records:
  "\<exists>r. all_responses (attempt env config idx k st) = all_responses st @ [r]
       \<and> timestamp r = now (attempt env config idx k st) \<and> error_means_no_response r"
  by (cases "transport_outcome (random_at env k) (now st) config (session_at env k)")
     (simp_all add: attempt_def Let_def request_func_eq response_record_of_def
        failure_data_def success_data_def get_default_def error_means_no_response_def)

lemma loop_exit:
  "\<not> (active_at env (now st) \<and> now st < E) \<Longrightarrow> make_requests_loop env config E idx k st = Inr st"
  by (subst make_requests_loop.simps) (simp only: if_False)

lemma loop_break:
  "active_at env (now st) \<and> now st < E \<Longrightarrow> E \<le> now (attempt env config idx k st)
   \<Longrightarrow> make_requests_loop env config E idx k st = Inr (attempt env config idx k st)"
  by (subst make_requests_loop.simps) simp

lemma py_sleep_slept:
  "now st1 < E \<Longrightarrow> py_sleep (min (message_interval config) (max 0 (E - now st1))) st1
     = Inr (slept config E st1)"
  using message_interval_pos [of config]
  by (simp add: py_sleep_def slept_def max_def min_def)

lemma py_sleep_slept_pos:
  "now st1 < E \<Longrightarrow> py_sleep (min (message_interval config) (E - now st1)) st1
     = Inr (slept config E st1)"
  using py_sleep_slept [of st1 E config] by (simp add: max_def)

lemma loop_continue:
  "active_at env (now st) \<and> now st < E \<Longrightarrow> now (attempt env config idx k st) < E
   \<Longrightarrow> make_requests_loop env config E idx k st
       = make_requests_loop env config E idx (Suc k) (slept config E (attempt env config idx k st))"
  by (subst make_requests_loop.simps) (simp add: py_sleep_slept py_sleep_slept_pos)

lemma slept_clamped:
  "clamped_sleeps config E st1 \<Longrightarrow> now st1 < E \<Longrightarrow> clamped_sleeps config E (slept config E st1)"
  using message_interval_pos [of config]
  by (auto simp: clamped_sleeps_def slept_def min_def)

lemma loop_main:
  assumes "clamped_sleeps config E st"
      and "\<forall>r\<in>set (all_responses st). timestamp r < E \<and> error_means_no_response r"
  shows "\<exists>st'. make_requests_loop env config E idx k st = Inr st'
           \<and> clamped_sleeps config E st'
           \<and> (\<forall>r\<in>set (all_responses st'). error_means_no_response r)
           \<and> (\<forall>r\<in>set (butlast (all_responses st')). timestamp r < E)"
  using assms
proof (induction env config E idx k st rule: make_requests_loop.induct)
  case (1 env config E idx k st)
  show ?case
  proof (cases "active_at env (now st) \<and> now st < E")
    case False
    have "\<forall>r\<in>set (butlast (all_responses st)). timestamp r < E"
      using "1.prems"(2) by (meson in_set_butlastD)
    then show ?thesis using loop_exit [OF False] "1.prems" by simp
  next
    case True
    define st1 where "st1 = attempt env config idx k st"
    obtain r where r: "all_responses st1 = all_responses st @ [r]" "timestamp r = now st1"
        "error_means_no_response r"
      using attempt_records [of env config idx k st] unfolding st1_def by blast
    have sl1: "clamped_sleeps config E st1"
      using "1.prems"(1) by (simp add: clamped_sleeps_def st1_def attempt_sleeps)
    show ?thesis
    proof (cases "E \<le> now st1")
      case brk: True
      have "make_requests_loop env config E idx k st = Inr st1"
        using loop_break [OF True] brk unfolding st1_def by simp
      moreover have "\<forall>r\<in>set (all_responses st1). error_means_no_response r"
        using r "1.prems"(2) by auto
      moreover have "\<forall>r\<in>set (butlast (all_responses st1)). timestamp r < E"
        using r "1.prems"(2) by simp
      ultimately show ?thesis using sl1 by blast
    next
      case cont: False
      then have lt: "now st1 < E" by simp
      define st2 where "st2 = slept config E st1"
      have sleep: "py_sleep (min (message_interval config) (max 0 (E - now st1))) st1 = Inr st2"
        unfolding st2_def by (rule py_sleep_slept [OF lt])
      have c2: "clamped_sleeps config E st2"
        unfolding st2_def by (rule slept_clamped [OF sl1 lt])
      have rec2: "all_responses st2 = all_responses st @ [r]"
        using r(1) by (simp add: st2_def slept_def)
      have inv2: "\<forall>r\<in>set (all_responses st2). timestamp r < E \<and> error_means_no_response r"
        using rec2 r lt "1.prems"(2) by auto
      have nle: "\<not> E - now (attempt env config idx k st) \<le> 0"
        using lt unfolding st1_def by simp
      have "\<exists>st'. make_requests_loop env config E idx (Suc k) st2 = Inr st'
           \<and> clamped_sleeps config E st'
           \<and> (\<forall>r\<in>set (all_responses st'). error_means_no_response r)
           \<and> (\<forall>r\<in>set (butlast (all_responses st')). timestamp r < E)"
        using "1.IH" [OF True nle sleep [unfolded st1_def] c2 inv2] .
      moreover have "make_requests_loop env config E idx k st
                       = make_requests_loop env config E idx (Suc k) st2"
        using loop_continue [OF True] lt unfolding st1_def st2_def by simp
      ultimately show ?thesis by simp
    qed
  qed
qed

lemma user_loop_result:
  "\<exists>st'. make_requests_for_user env config start_time idx t0 = Inr st'
      \<and> clamped_sleeps config (start_time + of_int (duration config)) st'
      \<and> (\<forall>r\<in>set (all_responses st'). error_means_no_response r)
      \<and> (\<forall>r\<in>set (butlast (all_responses st')). timestamp r < start_time + of_int (duration config))"
  unfolding make_requests_for_user_def
  by (rule loop_main) (simp_all add: initial_state_def clamped_sleeps_def)

text \<open>
  C8. The loop of a virtual user always returns (no exception, no divergence). Every sleep
  it makes starts before the deadline, lasts the minimum of the pacing interval and the
  time left, and so ends at or before the deadline; every record but the last was
  completed strictly before the deadline, that is, no attempt follows one that ended with
  no time left. A user whose start time is at or past the deadline returns its initial
  state: no record, no sleep. For the loop itself: if the attempt ends with remaining time
  at most zero the loop returns right after it, and if the remaining time is at most zero
  on entry it returns at once.
\<close>

theorem user_loop_respects_deadline:
  "(\<exists>st'. make_requests_for_user env config start_time idx t0 = Inr st'
      \<and> (\<forall>(t, s) \<in> set (sleeps st').
            t < start_time + of_int (duration config)
          \<and> s = min (message_interval config) (start_time + of_int (duration config) - t)
          \<and> 0 \<le> s \<and> t + s \<le> start_time + of_int (duration config))
      \<and> (\<forall>r\<in>set (butlast (all_responses st')).
            timestamp r < start_time + of_int (duration config))
      \<and> (start_time + of_int (duration config) \<le> t0
            \<longrightarrow> st' = initial_state t0 \<and> all_responses st' = [] \<and> user_responses st' = []))
   \<and> (active_at env (now st) \<and> now st < thread_end_time
        \<and> thread_end_time - now (attempt env config idx k st) \<le> 0
      \<longrightarrow> make_requests_loop env config thread_end_time idx k st
            = Inr (attempt env config idx k st))
   \<and> (thread_end_time - now st \<le> 0
      \<longrightarrow> make_requests_loop env config thread_end_time idx k st = Inr st)"
proof -
  obtain st' where st': "make_requests_for_user env config start_time idx t0 = Inr st'"
      "clamped_sleeps config (start_time + of_int (duration config)) st'"
      "\<forall>r\<in>set (butlast (all_responses st')). timestamp r < start_time + of_int (duration config)"
    using user_loop_result [of env config start_time idx t0] by blast
  have late: "st' = initial_state t0 \<and> all_responses st' = [] \<and> user_responses st' = []"
    if "start_time + of_int (duration config) \<le> t0"
  proof -
    have "make_requests_for_user env config start_time idx t0 = Inr (initial_state t0)"
      unfolding make_requests_for_user_def using that
      by (intro loop_exit) (simp add: initial_state_def)
    then show ?thesis using st'(1) by (simp add: initial_state_def)
  qed
  have brk: "make_requests_loop env config thread_end_time idx k st
            = Inr (attempt env config idx k st)"
    if "active_at env (now st) \<and> now st < thread_end_time
        \<and> thread_end_time - now (attempt env config idx k st) \<le> 0"
    using that by (intro loop_break) simp_all
  have ext: "make_requests_loop env config thread_end_time idx k st = Inr st"
    if "thread_end_time - now st \<le> 0"
    using that by (intro loop_exit) simp
  show ?thesis
    using st' late brk ext unfolding clamped_sleeps_def by blast
qed

text \<open>
  A concrete run: one user, a deadline at one second, each attempt taking 0.95 seconds
  against a session that refuses the connection. The single attempt ends with 0.05 seconds
  left, so the sleep is clamped to 0.05 seconds and the loop ends at the deadline.
\<close>

lemma slow_attempt:
  "attempt slow_env short_config 0 0 (initial_state 0)
     = \<lparr>now = 19 / 20, user_responses = [slow_record], all_responses = [slow_record], sleeps = []\<rparr>"
  by (simp add: attempt_def Let_def request_func_eq transport_outcome_def web_response_def
      session_get_def slow_env_def short_config_def sample_config_def refusing_session_def
      initial_state_def response_record_of_def failure_data_def str_exn_def get_default_def
      slow_record_def)

lemma slow_run:
  "make_requests_for_user slow_env short_config 0 0 0
     = Inr \<lparr>now = 1, user_responses = [slow_record], all_responses = [slow_record],
            sleeps = [(19 / 20, 1 / 20)]\<rparr>"
proof -
  have E: "0 + rat_of_int (duration short_config) = 1"
    by (simp add: short_config_def sample_config_def)
  have I: "message_interval short_config = 1 / 10"
    by (simp add: message_interval_def short_config_def sample_config_def)
  have act: "active_at slow_env t" for t by (simp add: slow_env_def)
  have step: "make_requests_loop slow_env short_config 1 0 0 (initial_state 0)
        = make_requests_loop slow_env short_config 1 0 (Suc 0)
            (slept short_config 1 (attempt slow_env short_config 0 0 (initial_state 0)))"
  proof (rule loop_continue)
    show "active_at slow_env (now (initial_state 0)) \<and> now (initial_state 0) < 1"
      by (simp add: act initial_state_def)
    show "now (attempt slow_env short_config 0 0 (initial_state 0)) < 1"
      by (simp add: slow_attempt)
  qed
  have st2: "slept short_config 1 (attempt slow_env short_config 0 0 (initial_state 0))
        = \<lparr>now = 1, user_responses = [slow_record], all_responses = [slow_record],
            sleeps = [(19 / 20, 1 / 20)]\<rparr>"
    by (simp add: slow_attempt slept_def I)
  have "make_requests_loop slow_env short_config 1 0 (Suc 0)
           \<lparr>now = 1, user_responses = [slow_record], all_responses = [slow_record],
            sleeps = [(19 / 20, 1 / 20)]\<rparr>
        = Inr \<lparr>now = 1, user_responses = [slow_record], all_responses = [slow_record],
            sleeps = [(19 / 20, 1 / 20)]\<rparr>"
    by (rule loop_exit) simp
  then show ?thesis
    unfolding make_requests_for_user_def E using step st2 by simp
qed

theorem user_loop_respects_deadline_witness:
  "make_requests_for_user slow_env short_config 0 0 0
     = Inr \<lparr>now = 1, user_responses = [slow_record], all_responses = [slow_record],
            sleeps = [(19 / 20, 1 / 20)]\<rparr>
   \<and> (19 / 20 :: rat) < 1 \<and> (1 / 20 :: rat) = min (message_interval short_config) (1 - 19 / 20)
   \<and> (19 / 20 :: rat) + 1 / 20 \<le> 1
   \<and> 0 + of_int (duration short_config) \<le> (1 :: rat)
   \<and> make_requests_for_user slow_env short_config 0 0 1 = Inr (initial_state 1)
   \<and> active_at slow_env (now (initial_state (1 / 20))) \<and> now (initial_state (1 / 20)) < 1
   \<and> 1 - now (attempt slow_env short_config 0 0 (initial_state (1 / 20))) \<le> 0
   \<and> make_requests_loop slow_env short_config 1 0 0 (initial_state (1 / 20))
       = Inr (attempt slow_env short_config 0 0 (initial_state (1 / 20)))"
proof -
  have d: "0 + of_int (duration short_config) = (1 :: rat)"
    by (simp add: short_config_def sample_config_def)
  have a: "active_at slow_env (now (initial_state (1 / 20))) \<and> now (initial_state (1 / 20)) < 1
           \<and> 1 - now (attempt slow_env short_config 0 0 (initial_state (1 / 20))) \<le> 0"
    by (simp add: slow_env_def initial_state_def attempt_now)
  note t1 = user_loop_respects_deadline
              [of slow_env short_config 0 0 0 "initial_state (1 / 20)" 1 0]
  note t2 = user_loop_respects_deadline
              [of slow_env short_config 0 0 1 "initial_state (1 / 20)" 1 0]
  have sl: "\<forall>(t, s) \<in> set [(19 / 20 :: rat, 1 / 20 :: rat)].
          t < 1 \<and> s = min (message_interval short_config) (1 - t) \<and> 0 \<le> s \<and> t + s \<le> 1"
    using t1 slow_run unfolding d by auto
  have late: "make_requests_for_user slow_env short_config 0 0 1 = Inr (initial_state 1)"
    using t2 unfolding d by auto
  have brk: "make_requests_loop slow_env short_config 1 0 0 (initial_state (1 / 20))
       = Inr (attempt slow_env short_config 0 0 (initial_state (1 / 20)))"
    using t1 a by blast
  show ?thesis using slow_run sl d late a brk by simp
qed

section \<open>Error records carry no status code\<close>

text \<open>
  C10. Let \<open>all\<close> be any collection whose records were each appended by the request
  loop of some virtual user of the run. Then every record with an error description has
  status code 0 and size 0, the failed records (status at least 400) and the records with
  an error description are disjoint, and the aggregation returns an error rate of at most
  100 percent.
\<close>

theorem error_records_have_status_zero:
  assumes "\<forall>r\<in>set all. \<exists>env idx t0 st'.
              make_requests_for_user env config start_time idx t0 = Inr st'
              \<and> r \<in> set (all_responses st')"
  shows "(\<forall>r\<in>set all. error r \<noteq> None \<longrightarrow> status_code r = 0 \<and> size_bytes r = 0)
       \<and> set (failed_responses all) \<inter> set (error_responses all) = {}
       \<and> (\<exists>res. aggregate_enhanced d elapsed all = Inr res \<and> error_rate res \<le> 100)"
proof -
  have inv: "error r \<noteq> None \<longrightarrow> status_code r = 0 \<and> size_bytes r = 0" if rin: "r \<in> set all" for r
  proof -
    obtain env idx t0 st' where st': "make_requests_for_user env config start_time idx t0 = Inr st'"
        "r \<in> set (all_responses st')"
      using assms rin by blast
    obtain st'' where "make_requests_for_user env config start_time idx t0 = Inr st''"
        "\<forall>r\<in>set (all_responses st''). error_means_no_response r"
      using user_loop_result [of env config start_time idx t0] by blast
    then show ?thesis using st' by (auto simp: error_means_no_response_def)
  qed
  have disj: "set (failed_responses all) \<inter> set (error_responses all) = {}"
    using inv by (auto simp: failed_responses_def error_responses_def truthy_str_def truthy_int_def
        split: option.splits)
  have rate: "\<exists>res. aggregate_enhanced d elapsed all = Inr res \<and> error_rate res \<le> 100"
  proof (cases "all = []")
    case True
    then show ?thesis by (simp add: aggregate_enhanced_def TestResults_default_def)
  next
    case False
    have "\<forall>r\<in>set all. error r \<noteq> None \<longrightarrow> status_code r = 0" using inv by blast
    from error_rate_bound [OF False this, of d elapsed] show ?thesis by blast
  qed
  show ?thesis using inv disj rate by blast
qed

theorem error_records_have_status_zero_witness:
  "(\<exists>env idx t0 st'. make_requests_for_user env short_config 0 idx t0 = Inr st'
        \<and> slow_record \<in> set (all_responses st'))
   \<and> error slow_record \<noteq> None \<and> status_code slow_record = 0 \<and> size_bytes slow_record = 0
   \<and> set (failed_responses [slow_record]) \<inter> set (error_responses [slow_record]) = {}
   \<and> (\<exists>res. aggregate_enhanced 1 1 [slow_record] = Inr res \<and> error_rate res \<le> 100)"
proof -
  have h: "\<forall>r\<in>set [slow_record]. \<exists>env idx t0 st'.
       make_requests_for_user env short_config 0 idx t0 = Inr st' \<and> r \<in> set (all_responses st')"
    using slow_run by fastforce
  have e: "error slow_record \<noteq> None" by (simp add: slow_record_def)
  show ?thesis
    using h e error_records_have_status_zero [OF h, of 1 1] by simp
qed

section \<open>Records of a run fall in one of the three classes, empty messages apart\<close>

lemma transport_outcome_well:
  assumes "answers_well s"
  shows "case transport_outcome rnd t config s of
           Inr response \<Rightarrow> 0 < resp_status_code response | Inl e \<Rightarrow> str_exn e \<noteq> []"
proof -
  have s: "case s req of Inr response \<Rightarrow> 0 < resp_status_code response
                       | Inl e \<Rightarrow> str_exn e \<noteq> []" for req
    using assms by (simp add: answers_well_def)
  have api: "case api_response config s of Inr response \<Rightarrow> 0 < resp_status_code response
                       | Inl e \<Rightarrow> str_exn e \<noteq> []"
  proof (cases "api_method config")
    case (Inl e)
    then have "str_exn e \<noteq> []"
      by (auto simp: api_method_def py_upper_def no_attribute_def AttributeError_def str_exn_def
          split: if_splits py_value.splits)
    then show ?thesis using Inl by (simp add: api_response_def)
  next
    case (Inr verb)
    then show ?thesis
      by (simp add: api_response_def session_get_def session_post_def session_put_def
          session_delete_def s)
  qed
  show ?thesis
    unfolding transport_outcome_def
    using api by (simp add: webhook_response_def web_response_def session_get_def
        session_post_def s)
qed

lemma attempt_classified:
  assumes "answers_well (session_at env k)"
  shows "\<exists>r. all_responses (attempt env config idx k st) = all_responses st @ [r] \<and> classified r"
proof (cases "transport_outcome (random_at env k) (now st) config (session_at env k)")
  case (Inl e)
  then have "str_exn e \<noteq> []"
    using transport_outcome_well [OF assms, of "random_at env k" "now st" config] by simp
  then show ?thesis
    using Inl by (simp add: attempt_def Let_def request_func_eq response_record_of_def
        failure_data_def get_default_def classified_def truthy_str_def)
next
  case (Inr response)
  then have "0 < resp_status_code response"
    using transport_outcome_well [OF assms, of "random_at env k" "now st" config] by simp
  then show ?thesis
    using Inr by (simp add: attempt_def Let_def request_func_eq response_record_of_def
        success_data_def get_default_def classified_def)
qed

lemma loop_classified:
  assumes "\<forall>j. answers_well (session_at env j)"
      and "\<forall>r\<in>set (all_responses st). classified r"
  shows "\<exists>st'. make_requests_loop env config E idx k st = Inr st'
           \<and> (\<forall>r\<in>set (all_responses st'). classified r)"
  using assms
proof (induction env config E idx k st rule: make_requests_loop.induct)
  case (1 env config E idx k st)
  show ?case
  proof (cases "active_at env (now st) \<and> now st < E")
    case False
    then show ?thesis using loop_exit [OF False] "1.prems"(2) by simp
  next
    case True
    define st1 where "st1 = attempt env config idx k st"
    obtain r where r: "all_responses st1 = all_responses st @ [r]" "classified r"
      using attempt_classified [of env k config idx st] "1.prems"(1) unfolding st1_def by blast
    have all1: "\<forall>r\<in>set (all_responses st1). classified r"
      using r "1.prems"(2) by auto
    show ?thesis
    proof (cases "E \<le> now st1")
      case brk: True
      have "make_requests_loop env config E idx k st = Inr st1"
        using loop_break [OF True] brk unfolding st1_def by simp
      then show ?thesis using all1 by blast
    next
      case cont: False
      then have lt: "now st1 < E" by simp
      define st2 where "st2 = slept config E st1"
      have sleep: "py_sleep (min (message_interval config) (max 0 (E - now st1))) st1 = Inr st2"
        unfolding st2_def by (rule py_sleep_slept [OF lt])
      have all2: "\<forall>r\<in>set (all_responses st2). classified r"
        using all1 by (simp add: st2_def slept_def)
      have nle: "\<not> E - now (attempt env config idx k st) \<le> 0"
        using lt unfolding st1_def by simp
      have "\<exists>st'. make_requests_loop env config E idx (Suc k) st2 = Inr st'
           \<and> (\<forall>r\<in>set (all_responses st'). classified r)"
        using "1.IH" [OF True nle sleep [unfolded st1_def] "1.prems"(1) all2] .
      moreover have "make_requests_loop env config E idx k st
                       = make_requests_loop env config E idx (Suc k) st2"
        using loop_continue [OF True] lt unfolding st1_def st2_def by simp
      ultimately show ?thesis by simp
    qed
  qed
qed

text \<open>
  On the records of a run whose sessions answer with a positive status code or with an
  exception of non-empty message, the total is the sum of the three classes.
\<close>

lemma counts_add_up_on_runs:
  assumes "all \<noteq> []"
      and "\<forall>r\<in>set all. \<exists>env idx t0 st'. (\<forall>j. answers_well (session_at env j))
              \<and> make_requests_for_user env config start_time idx t0 = Inr st'
              \<and> r \<in> set (all_responses st')"
  shows "\<exists>res. aggregate_enhanced d elapsed all = Inr res \<and> counts_add_up all res"
proof -
  have cl: "classified r" if rin: "r \<in> set all" for r
  proof -
    obtain env idx t0 st' where st': "\<forall>j. answers_well (session_at env j)"
        "make_requests_for_user env config start_time idx t0 = Inr st'"
        "r \<in> set (all_responses st')"
      using assms(2) rin by blast
    obtain st'' where "make_requests_for_user env config start_time idx t0 = Inr st''"
        "\<forall>r\<in>set (all_responses st''). classified r"
      using loop_classified [OF st'(1), of "initial_state t0" config
          "start_time + of_int (duration config)" idx 0]
      unfolding make_requests_for_user_def by (auto simp: initial_state_def)
    then show ?thesis using st'(2,3) by auto
  qed
  then show ?thesis
    using classification_of_records [OF assms(1), of d elapsed] by blast
qed

text \<open>
  The run of one user whose session raises an exception with an empty message, with a
  deadline at one second and attempts of 0.95 seconds.
\<close>

lemma silent_attempt:
  "attempt silent_env short_config 0 0 (initial_state 0)
     = \<lparr>now = 19 / 20, user_responses = [silent_record], all_responses = [silent_record],
        sleeps = []\<rparr>"
  by (simp add: attempt_def Let_def request_func_eq transport_outcome_def web_response_def
      session_get_def silent_env_def short_config_def sample_config_def silent_session_def
      initial_state_def response_record_of_def failure_data_def str_exn_def get_default_def
      silent_record_def)

lemma silent_run:
  "make_requests_for_user silent_env short_config 0 0 0
     = Inr \<lparr>now = 1, user_responses = [silent_record], all_responses = [silent_record],
            sleeps = [(19 / 20, 1 / 20)]\<rparr>"
proof -
  have E: "0 + rat_of_int (duration short_config) = 1"
    by (simp add: short_config_def sample_config_def)
  have I: "message_interval short_config = 1 / 10"
    by (simp add: message_interval_def short_config_def sample_config_def)
  have act: "active_at silent_env t" for t by (simp add: silent_env_def)
  have step: "make_requests_loop silent_env short_config 1 0 0 (initial_state 0)
        = make_requests_loop silent_env short_config 1 0 (Suc 0)
            (slept short_config 1 (attempt silent_env short_config 0 0 (initial_state 0)))"
  proof (rule loop_continue)
    show "active_at silent_env (now (initial_state 0)) \<and> now (initial_state 0) < 1"
      by (simp add: act initial_state_def)
    show "now (attempt silent_env short_config 0 0 (initial_state 0)) < 1"
      by (simp add: silent_attempt)
  qed
  have st2: "slept short_config 1 (attempt silent_env short_config 0 0 (initial_state 0))
        = \<lparr>now = 1, user_responses = [silent_record], all_responses = [silent_record],
            sleeps = [(19 / 20, 1 / 20)]\<rparr>"
    by (simp add: silent_attempt slept_def I)
  have "make_requests_loop silent_env short_config 1 0 (Suc 0)
           \<lparr>now = 1, user_responses = [silent_record], all_responses = [silent_record],
            sleeps = [(19 / 20, 1 / 20)]\<rparr>
        = Inr \<lparr>now = 1, user_responses = [silent_record], all_responses = [silent_record],
            sleeps = [(19 / 20, 1 / 20)]\<rparr>"
    by (rule loop_exit) simp
  then show ?thesis
    unfolding make_requests_for_user_def E using step st2 by simp
qed

lemma silent_aggregate:
  "aggregate_enhanced 1 1 [silent_record] =
     Inr \<lparr>total_requests = 1, successful_requests = 0, failed_requests = 0,
          requests_per_second = 1, avg_response_time = 950, median_response_time = 950,
          p95_response_time = 0, p99_response_time = 0, min_response_time = 950,
          max_response_time = 950, error_rate = 0, errors = Some Map.empty, data_sent_mb = 0,
          data_received_mb = 0, res_duration = 1\<rparr>"
  by (simp add: aggregate_enhanced_def silent_record_def TestResults_default_def
      successful_responses_def failed_responses_def error_responses_def truthy_int_def
      truthy_str_def set_error_rate_def py_truediv_def positive_times_def
      response_time_stats_def median_min_max_def py_getitem_def py_min_def py_max_def
      percentiles_enhanced_def set_rps_def set_data_transfer_def)

lemma silent_aggregate_simple:
  "result_field error_rate (aggregate_simple 1 1 [silent_record_simple]) = Inr 100"
  by (simp add: result_field_def aggregate_simple_def silent_record_simple_def
      TestResults_default_def successful_responses_simple_def failed_responses_def
      error_responses_simple_def truthy_int_def set_error_rate_simple_def py_truediv_def
      positive_times_def response_time_stats_simple_def set_data_transfer_def)

text \<open>
  C5 at a concrete input. The session of the single user raises an exception whose message
  is empty, so the loop appends one record with status code 0 and the error description
  \<open>''\<close>. The enhanced runner tests the description for truthiness: the record is neither
  successful nor failed nor an error record, the total is 1 while the three classes sum
  to 0, and the error rate is 0. The simple runner tests the presence of the key and
  reports an error rate of 100 for the same failure.
\<close>

theorem empty_error_message_uncounted:
  "make_requests_for_user silent_env short_config 0 0 0
     = Inr \<lparr>now = 1, user_responses = [silent_record], all_responses = [silent_record],
            sleeps = [(19 / 20, 1 / 20)]\<rparr>
   \<and> aggregate_enhanced 1 1 [silent_record] =
     Inr \<lparr>total_requests = 1, successful_requests = 0, failed_requests = 0,
          requests_per_second = 1, avg_response_time = 950, median_response_time = 950,
          p95_response_time = 0, p99_response_time = 0, min_response_time = 950,
          max_response_time = 950, error_rate = 0, errors = Some Map.empty, data_sent_mb = 0,
          data_received_mb = 0, res_duration = 1\<rparr>
   \<and> error_not_failed [silent_record] = []
   \<and> \<not> counts_add_up [silent_record]
         \<lparr>total_requests = 1, successful_requests = 0, failed_requests = 0,
          requests_per_second = 1, avg_response_time = 950, median_response_time = 950,
          p95_response_time = 0, p99_response_time = 0, min_response_time = 950,
          max_response_time = 950, error_rate = 0, errors = Some Map.empty, data_sent_mb = 0,
          data_received_mb = 0, res_duration = 1\<rparr>
   \<and> result_field error_rate (aggregate_simple 1 1 [silent_record_simple]) = Inr 100"
proof -
  have enf: "error_not_failed [silent_record] = []"
    by (simp add: error_not_failed_def error_responses_def silent_record_def truthy_str_def)
  show ?thesis
    using silent_run silent_aggregate silent_aggregate_simple enf
    by (simp add: counts_add_up_def)
qed

section \<open>Validation of the configuration\<close>

lemma submit_users_indices:
  "map fst (submit_users (\<lambda>t. True) config is t) = is"
  by (induction "is" arbitrary: t) (simp_all add: Let_def)

text \<open>
  Where the code validates: the run command refuses a missing target URL, the worker pool
  of either runner cannot be created for a user count that is not positive, and the
  commands that set the user count and the duration leave the configuration unchanged
  unless the value they store is positive.
\<close>

lemma run_command_rejects_missing_url:
  "cfg_target_url c = [] \<Longrightarrow> handle_run_command available c = Inl ''Error: No target URL specified.''"
  by (simp add: handle_run_command_def)

lemma pools_reject_nonpositive_users:
  "users tc \<le> 0 \<Longrightarrow> (\<exists>e. start_users active tc = Inl e)
                     \<and> (\<exists>e. simple_first_batch flag tc s ms = Inl e)"
  by (simp add: start_users_def simple_first_batch_def thread_pool_def)

lemma users_command_stores_positive:
  "fst (handle_users_command int_of_str c arg) = c
   \<or> (\<exists>n. 0 < n \<and> fst (handle_users_command int_of_str c arg) = c\<lparr>cfg_users := n\<rparr>)"
  by (auto simp: handle_users_command_def split: option.splits sum.splits)

lemma duration_command_stores_positive:
  "fst (handle_duration_command int_of_str c arg) = c
   \<or> (\<exists>n. 0 < n \<and> fst (handle_duration_command int_of_str c arg) = c\<lparr>cfg_duration := n\<rparr>)"
  by (auto simp: handle_duration_command_def split: option.splits sum.splits)

text \<open>
  Where it does not: \<open>from_dict\<close> stores whatever the file holds, and neither the run
  command nor a runner looks at the duration. With a duration that is not positive and at
  least one user, the enhanced runner submits every user (each returns at once, without a
  request) and the simple runner sends the first request of every user.
\<close>

lemma from_dict_stores_any:
  "cfg_duration (from_dict c data) = get_default (data_duration data) 60
   \<and> cfg_users (from_dict c data) = get_default (data_users data) 100"
  by (simp add: from_dict_def)

lemma nonpositive_duration_runs:
  assumes "duration tc \<le> 0" "0 < users tc"
  shows "(\<exists>subs. start_users (\<lambda>t. True) tc = Inr subs \<and> map fst subs = py_range (users tc))
       \<and> (start_time \<le> t0
            \<longrightarrow> make_requests_for_user env tc start_time idx t0 = Inr (initial_state t0))
       \<and> simple_first_batch True tc s ms
           = Inr (map (simple_make_request True tc s ms) (py_range (users tc)))
       \<and> py_range (users tc) \<noteq> []"
proof -
  have sub: "\<exists>subs. start_users (\<lambda>t. True) tc = Inr subs \<and> map fst subs = py_range (users tc)"
    using assms(2) by (simp add: start_users_def thread_pool_def submit_users_indices)
  have idle: "make_requests_for_user env tc start_time idx t0 = Inr (initial_state t0)"
    if le: "start_time \<le> t0"
  proof -
    have "rat_of_int (duration tc) \<le> 0" using assms(1) by simp
    then have "start_time + rat_of_int (duration tc) \<le> t0" using le by linarith
    then show ?thesis
      unfolding make_requests_for_user_def
      by (intro loop_exit) (simp add: initial_state_def)
  qed
  have batch: "simple_first_batch True tc s ms
           = Inr (map (simple_make_request True tc s ms) (py_range (users tc)))"
    using assms(2) by (simp add: simple_first_batch_def thread_pool_def)
  have ne: "py_range (users tc) \<noteq> []"
    using assms(2) by (simp add: py_range_def)
  show ?thesis using sub idle batch ne by blast
qed

text \<open>
  C9 at a concrete input. A saved configuration with a target URL, one user and a duration
  of zero is stored as it is by \<open>from_dict\<close>. The run command accepts it and hands it to
  the enhanced runner, which submits the worker of user 0; with the simple framework the
  run command hands it to the simple runner, whose first batch sends a GET to the target
  (the session answers 200 only to that request). The command that sets the duration
  refuses the same value 0.
\<close>

theorem stored_zero_duration_runs:
  "from_dict Config_init zero_duration_data = zero_duration_config
   \<and> cfg_duration zero_duration_config = 0
   \<and> handle_run_command builtin_frameworks zero_duration_config
       = Inr (EnhancedHttpRunner, to_test_config zero_duration_config)
   \<and> start_users (\<lambda>t. True) (to_test_config zero_duration_config) = Inr [(0, 0)]
   \<and> handle_run_command builtin_frameworks (zero_duration_config\<lparr>cfg_framework := Some ''simple''\<rparr>)
       = Inr (SimpleHttpRunner,
              to_test_config (zero_duration_config\<lparr>cfg_framework := Some ''simple''\<rparr>))
   \<and> simple_first_batch True
         (to_test_config (zero_duration_config\<lparr>cfg_framework := Some ''simple''\<rparr>))
         get_only_session 12
       = Inr [Some \<lparr>timestamp = 0, response_time = 12, status_code = 200, size_bytes = 2,
                     error = None, session_idx = 0\<rparr>]
   \<and> handle_duration_command parse_digit_zero Config_init (Some ''0'')
       = (Config_init, ''Duration must be a positive number.'')"
  by (simp add: from_dict_def Config_init_def zero_duration_data_def zero_duration_config_def
      get_default_def handle_run_command_def builtin_frameworks_def to_test_config_def
      start_users_def thread_pool_def py_range_def simple_first_batch_def
      simple_make_request_def session_get_def get_only_session_def
      handle_duration_command_def parse_digit_zero_def)

end
